theory Spec2Isabelle
  imports Complex_Main
begin

section \<open>Python values and exceptions\<close>

text \<open>
  The weather provider answers with a JSON document, which \<^verbatim>\<open>response.json()\<close> turns into
  Python values. A JSON number without fraction and exponent becomes an \<^verbatim>\<open>int\<close> (of any
  size), every other number a \<^verbatim>\<open>float\<close>. A float is given by its exact value, which is
  finite: the tokens \<^verbatim>\<open>NaN\<close> and \<^verbatim>\<open>Infinity\<close>, which Python's parser accepts too, are not
  modelled as input. JSON \<^verbatim>\<open>true\<close> and \<^verbatim>\<open>false\<close> are the ints \<^verbatim>\<open>1\<close> and \<^verbatim>\<open>0\<close>: Python
  computes, compares and hashes them as these. A JSON object is an association list read
  by its first matching key.
\<close>

datatype pyval =
    PNone
  | PInt int
  | PFloat rat
  | PStr string
  | PList "pyval list"
  | PDict "(string \<times> pyval) list"

text \<open>A float that the code computes can leave the finite range.\<close>

datatype pyfloat =
    Finite rat
  | PosInf
  | NegInf
  | NaN

text \<open>The exception classes the modelled code can raise; each derives from \<^verbatim>\<open>Exception\<close>.\<close>

datatype error =
    KeyError
  | IndexError
  | TypeError
  | AttributeError
  | ValueError
  | OverflowError
  | ZeroDivisionError
  | RequestException
  | PyMongoError

fun is_Exception :: "error \<Rightarrow> bool" where
  "is_Exception KeyError = True"
| "is_Exception IndexError = True"
| "is_Exception TypeError = True"
| "is_Exception AttributeError = True"
| "is_Exception ValueError = True"
| "is_Exception OverflowError = True"
| "is_Exception ZeroDivisionError = True"
| "is_Exception RequestException = True"
| "is_Exception PyMongoError = True"

text \<open>Sequencing of statements that may raise: the first exception ends the block.\<close>

definition and_then :: "error + 'a \<Rightarrow> ('a \<Rightarrow> error + 'b) \<Rightarrow> error + 'b" where
  "and_then m f = (case m of Inl e \<Rightarrow> Inl e | Inr x \<Rightarrow> f x)"

text \<open>\<^verbatim>\<open>obj[key]\<close> with a string key: only a dict can be read that way.\<close>

fun getitem :: "pyval \<Rightarrow> string \<Rightarrow> error + pyval" where
  "getitem (PDict kvs) k = (case map_of kvs k of None \<Rightarrow> Inl KeyError | Some v \<Rightarrow> Inr v)"
| "getitem PNone k = Inl TypeError"
| "getitem (PInt i) k = Inl TypeError"
| "getitem (PFloat r) k = Inl TypeError"
| "getitem (PStr s) k = Inl TypeError"
| "getitem (PList xs) k = Inl TypeError"

text \<open>\<^verbatim>\<open>obj[0]\<close>: the first element of a list, the first character of a string; a JSON
  object has string keys only, so the key \<^verbatim>\<open>0\<close> is missing.\<close>

fun getitem0 :: "pyval \<Rightarrow> error + pyval" where
  "getitem0 (PList xs) = (case xs of [] \<Rightarrow> Inl IndexError | x # _ \<Rightarrow> Inr x)"
| "getitem0 (PStr s) = (case s of [] \<Rightarrow> Inl IndexError | c # _ \<Rightarrow> Inr (PStr [c]))"
| "getitem0 (PDict kvs) = Inl KeyError"
| "getitem0 PNone = Inl TypeError"
| "getitem0 (PInt i) = Inl TypeError"
| "getitem0 (PFloat r) = Inl TypeError"

text \<open>\<^verbatim>\<open>for item in obj\<close>: the elements of a list, the keys of a dict, the characters of a
  string.\<close>

fun py_iter :: "pyval \<Rightarrow> error + pyval list" where
  "py_iter (PList xs) = Inr xs"
| "py_iter (PDict kvs) = Inr (map (\<lambda>kv. PStr (fst kv)) kvs)"
| "py_iter (PStr s) = Inr (map (\<lambda>c. PStr [c]) s)"
| "py_iter PNone = Inl TypeError"
| "py_iter (PInt i) = Inl TypeError"
| "py_iter (PFloat r) = Inl TypeError"

text \<open>The value of a number, as \<^verbatim>\<open>max\<close>, \<^verbatim>\<open>min\<close> and \<^verbatim>\<open>round\<close> see it: Python compares
  ints and floats by their exact values. Anything else makes them raise TypeError.\<close>

fun as_number :: "pyval \<Rightarrow> error + rat" where
  "as_number (PInt i) = Inr (of_int i)"
| "as_number (PFloat r) = Inr r"
| "as_number PNone = Inl TypeError"
| "as_number (PStr s) = Inl TypeError"
| "as_number (PList xs) = Inl TypeError"
| "as_number (PDict kvs) = Inl TypeError"

fun as_numbers :: "pyval list \<Rightarrow> error + rat list" where
  "as_numbers [] = Inr []"
| "as_numbers (v # vs) =
     (case as_number v of
        Inl e \<Rightarrow> Inl e
      | Inr r \<Rightarrow> (case as_numbers vs of Inl e \<Rightarrow> Inl e | Inr rs \<Rightarrow> Inr (r # rs)))"

text \<open>Python's \<^verbatim>\<open>round(x)\<close> of an int or of a finite float: the nearest integer of the exact
  value, a tie going to the even one. On an infinity it raises OverflowError, on NaN
  ValueError.\<close>

definition py_round :: "rat \<Rightarrow> int" where
  "py_round x =
     (let f = \<lfloor>x\<rfloor>; d = x - of_int f
      in if d < 1 / 2 then f
         else if 1 / 2 < d then f + 1
         else if even f then f else f + 1)"

fun round_float :: "pyfloat \<Rightarrow> error + int" where
  "round_float (Finite r) = Inr (py_round r)"
| "round_float PosInf = Inl OverflowError"
| "round_float NegInf = Inl OverflowError"
| "round_float NaN = Inl ValueError"

text \<open>\<^verbatim>\<open>max(xs)\<close> and \<^verbatim>\<open>min(xs)\<close> keep the first extremal element and raise on an empty
  sequence; \<^verbatim>\<open>max(xs, key=f)\<close> compares the keys.\<close>

fun py_max_key :: "('a \<Rightarrow> nat) \<Rightarrow> 'a list \<Rightarrow> error + 'a" where
  "py_max_key f [] = Inl ValueError"
| "py_max_key f (x # xs) = Inr (fold (\<lambda>y best. if f best < f y then y else best) xs x)"

fun py_max :: "rat list \<Rightarrow> error + rat" where
  "py_max [] = Inl ValueError"
| "py_max (x # xs) = Inr (fold (\<lambda>y best. if best < y then y else best) xs x)"

fun py_min :: "rat list \<Rightarrow> error + rat" where
  "py_min [] = Inl ValueError"
| "py_min (x # xs) = Inr (fold (\<lambda>y best. if y < best then y else best) xs x)"

text \<open>Lists and dicts are unhashable: \<^verbatim>\<open>set(xs)\<close> raises TypeError on them.\<close>

fun hashable :: "pyval \<Rightarrow> bool" where
  "hashable PNone = True"
| "hashable (PInt i) = True"
| "hashable (PFloat r) = True"
| "hashable (PStr s) = True"
| "hashable (PList xs) = False"
| "hashable (PDict kvs) = False"

text \<open>Python's \<^verbatim>\<open>==\<close> on hashable values: an int equals the float of the same value, and
  equal values have the same hash. Two hashable values are equal exactly when their keys
  are. (Lists and dicts never reach a comparison here: \<^verbatim>\<open>set\<close> has raised before.)\<close>

fun py_key :: "pyval \<Rightarrow> pyval" where
  "py_key (PInt i) = PFloat (of_int i)"
| "py_key PNone = PNone"
| "py_key (PFloat r) = PFloat r"
| "py_key (PStr s) = PStr s"
| "py_key (PList xs) = PList xs"
| "py_key (PDict kvs) = PDict kvs"

text \<open>\<^verbatim>\<open>xs.count(x)\<close>: the number of elements equal to \<open>x\<close>.\<close>

definition py_count :: "pyval list \<Rightarrow> pyval \<Rightarrow> nat" where
  "py_count xs x = length (filter (\<lambda>y. py_key y = py_key x) xs)"

text \<open>The elements a set keeps when it is filled from a list: of equal values the first.\<close>

fun py_distinct :: "pyval list \<Rightarrow> pyval list" where
  "py_distinct [] = []"
| "py_distinct (x # xs) = x # filter (\<lambda>y. py_key y \<noteq> py_key x) (py_distinct xs)"

text \<open>The distinct elements of a list, each at its first occurrence.\<close>

fun first_seen :: "'a list \<Rightarrow> 'a list" where
  "first_seen [] = []"
| "first_seen (x # xs) = x # filter (\<lambda>y. y \<noteq> x) (first_seen xs)"

text \<open>\<^verbatim>\<open>str.capitalize()\<close> on ASCII text: first character upper case, the rest lower case.\<close>

definition ascii_upper :: "char \<Rightarrow> char" where
  "ascii_upper c =
     (case map_of (zip ''abcdefghijklmnopqrstuvwxyz'' ''ABCDEFGHIJKLMNOPQRSTUVWXYZ'') c of
        None \<Rightarrow> c
      | Some u \<Rightarrow> u)"

definition ascii_lower :: "char \<Rightarrow> char" where
  "ascii_lower c =
     (case map_of (zip ''ABCDEFGHIJKLMNOPQRSTUVWXYZ'' ''abcdefghijklmnopqrstuvwxyz'') c of
        None \<Rightarrow> c
      | Some l \<Rightarrow> l)"

fun capitalize :: "string \<Rightarrow> string" where
  "capitalize [] = []"
| "capitalize (c # cs) = ascii_upper c # map ascii_lower cs"

section \<open>Weather records\<close>

text \<open>The dict that \<^verbatim>\<open>get_current_weather\<close> returns, the per-day dict that
  \<^verbatim>\<open>get_weekly_forecast\<close> collects, the dict it emits for a day, and the document that the
  dashboard stores in \<^verbatim>\<open>weather_queries\<close>.\<close>

record snapshot =
  cw_city :: pyval
  cw_country :: pyval
  cw_temperature :: int
  cw_feels_like :: int
  cw_description :: string
  cw_icon :: pyval
  cw_humidity :: pyval
  cw_pressure :: pyval
  cw_wind_speed :: pyval
  cw_timestamp :: int

record day_data =
  dd_date :: string
  dd_temps :: "pyval list"
  dd_descriptions :: "pyval list"
  dd_humidity :: "pyval list"
  dd_wind :: "pyval list"
  dd_icon :: pyval

record summary =
  date :: string
  temp_max :: int
  temp_min :: int
  description :: pyval
  humidity :: int
  wind_speed :: pyfloat
  icon :: pyval

record weather_query =
  wq_user_id :: nat
  wq_city :: string
  query_time :: int
  weather_data :: snapshot
  forecast :: "summary list"

section \<open>The environment of a request\<close>

text \<open>
  What the code takes from outside itself:
  \<^item> \<open>http_get\<close>: the provider's answer to \<^verbatim>\<open>requests.get\<close>, per endpoint and city;
  \<^item> \<open>local_date\<close>: the local calendar date of a timestamp,
    \<^verbatim>\<open>datetime.fromtimestamp(ts).date()\<close>, which raises on a timestamp out of range;
  \<^item> \<open>date_label\<close>: the rendering \<^verbatim>\<open>strftime('%A, %B %d')\<close> of a date;
  \<^item> \<open>set_slot\<close>: the iteration order of a Python set. Python leaves that order
    unspecified; here a set is iterated by ascending slot of its elements, elements of one
    slot in insertion order, so every order of a given set is the order of some slot
    function;
  \<^item> \<open>float_mean\<close> and \<open>float_round1\<close>: binary floating point. What
    \<^verbatim>\<open>sum(xs) / len(xs)\<close> evaluates to on a non-empty list of numbers (a double that
    depends on which of them are ints, on the rounding of every addition and on the
    interpreter's summation, or an OverflowError when an int is too large for a double),
    and the double that \<^verbatim>\<open>round(x, 1)\<close> gives, are not computed here: they are taken as
    they come;
  \<^item> \<open>store_accepts\<close>: whether the driver and the server take a document whose integers
    fit (its strings, keys, size; the connection);
  \<^item> \<open>now\<close> and \<open>generate_password_hash\<close>: the clock and the password hash.

  A date is its day number; \<^verbatim>\<open>strftime('%Y-%m-%d')\<close>, the key of \<^verbatim>\<open>daily_forecast\<close>,
  is one-to-one on dates, so the date itself is the key.
\<close>

type_synonym date = int

datatype http_result =
    RequestFailed
  | Response nat "pyval option"

record env =
  http_get :: "string \<Rightarrow> string \<Rightarrow> http_result"
  local_date :: "rat \<Rightarrow> error + date"
  date_label :: "date \<Rightarrow> string"
  set_slot :: "pyval \<Rightarrow> nat"
  float_mean :: "pyval list \<Rightarrow> error + pyfloat"
  float_round1 :: "pyfloat \<Rightarrow> pyfloat"
  store_accepts :: "weather_query \<Rightarrow> bool"
  now :: int
  generate_password_hash :: "string \<Rightarrow> string"

text \<open>\<^verbatim>\<open>response.json()\<close>: a body that is not JSON raises a ValueError.\<close>

definition response_json :: "pyval option \<Rightarrow> error + pyval" where
  "response_json body = (case body of None \<Rightarrow> Inl ValueError | Some d \<Rightarrow> Inr d)"

definition fromtimestamp_date :: "env \<Rightarrow> pyval \<Rightarrow> error + date" where
  "fromtimestamp_date e v =
     (case v of
        PInt i \<Rightarrow> local_date e (of_int i)
      | PFloat t \<Rightarrow> local_date e t
      | _ \<Rightarrow> Inl TypeError)"

text \<open>\<^verbatim>\<open>set(xs)\<close>, as the list of its elements in iteration order. Equal values share a
  hash, so the slot is taken of the key.\<close>

definition py_set :: "env \<Rightarrow> pyval list \<Rightarrow> error + pyval list" where
  "py_set e xs =
     (if list_all hashable xs
      then Inr (sort_key (\<lambda>x. set_slot e (py_key x)) (py_distinct xs))
      else Inl TypeError)"

text \<open>\<^verbatim>\<open>sum(xs) / len(xs)\<close>: \<^verbatim>\<open>sum\<close> raises TypeError on a value that is not a number, the
  division raises ZeroDivisionError on the empty list, and on numbers the double (or the
  OverflowError) is the environment's. (An OverflowError that \<^verbatim>\<open>sum\<close> would raise before it
  comes to a value that is not a number is reported as that TypeError; every handler
  treats the two alike.)\<close>

definition py_mean :: "env \<Rightarrow> pyval list \<Rightarrow> error + pyfloat" where
  "py_mean e xs =
     (case as_numbers xs of
        Inl err \<Rightarrow> Inl err
      | Inr rs \<Rightarrow> if xs = [] then Inl ZeroDivisionError else float_mean e xs)"

section \<open>get_weekly_forecast\<close>

text \<open>\<^verbatim>\<open>daily_forecast\<close> is a dict, which keeps its keys in insertion order: an association
  list with distinct keys, a new key appended at the end.\<close>

type_synonym daily_forecast = "(date \<times> day_data) list"

definition new_day :: "env \<Rightarrow> date \<Rightarrow> pyval \<Rightarrow> day_data" where
  "new_day e d ic =
     \<lparr>dd_date = date_label e d, dd_temps = [], dd_descriptions = [], dd_humidity = [],
      dd_wind = [], dd_icon = ic\<rparr>"

definition append_sample :: "pyval \<Rightarrow> pyval \<Rightarrow> pyval \<Rightarrow> pyval \<Rightarrow> day_data \<Rightarrow> day_data" where
  "append_sample t ds h sp dd =
     dd\<lparr>dd_temps := dd_temps dd @ [t], dd_descriptions := dd_descriptions dd @ [ds],
        dd_humidity := dd_humidity dd @ [h], dd_wind := dd_wind dd @ [sp]\<rparr>"

definition update_day :: "date \<Rightarrow> (day_data \<Rightarrow> day_data) \<Rightarrow> daily_forecast \<Rightarrow> daily_forecast" where
  "update_day d f df = map (\<lambda>kv. if fst kv = d then (fst kv, f (snd kv)) else kv) df"

text \<open>One pass of the loop over \<^verbatim>\<open>data['list']\<close> (lines 209 to 225). An exception leaves
  the function, so the dict it was building is lost with it.\<close>

definition add_item :: "env \<Rightarrow> daily_forecast \<Rightarrow> pyval \<Rightarrow> error + daily_forecast" where
  "add_item e df item =
     and_then (getitem item ''dt'') (\<lambda>dt.
     and_then (fromtimestamp_date e dt) (\<lambda>d.
     and_then
       (if d \<in> set (map fst df) then Inr df
        else
          and_then (getitem item ''weather'') (\<lambda>w.
          and_then (getitem0 w) (\<lambda>w0.
          and_then (getitem w0 ''icon'') (\<lambda>ic.
          Inr (df @ [(d, new_day e d ic)]))))) (\<lambda>df1.
     and_then (getitem item ''main'') (\<lambda>m.
     and_then (getitem m ''temp'') (\<lambda>t.
     and_then (getitem item ''weather'') (\<lambda>w.
     and_then (getitem0 w) (\<lambda>w0.
     and_then (getitem w0 ''description'') (\<lambda>ds.
     and_then (getitem item ''main'') (\<lambda>m2.
     and_then (getitem m2 ''humidity'') (\<lambda>h.
     and_then (getitem item ''wind'') (\<lambda>wi.
     and_then (getitem wi ''speed'') (\<lambda>sp.
     Inr (update_day d (append_sample t ds h sp) df1)))))))))))))"

fun group_items :: "env \<Rightarrow> daily_forecast \<Rightarrow> pyval list \<Rightarrow> error + daily_forecast" where
  "group_items e df [] = Inr df"
| "group_items e df (item # items) =
     (case add_item e df item of
        Inl err \<Rightarrow> Inl err
      | Inr df' \<Rightarrow> group_items e df' items)"

text \<open>\<^verbatim>\<open>max(set(descriptions), key=descriptions.count)\<close>.\<close>

definition most_common :: "env \<Rightarrow> pyval list \<Rightarrow> error + pyval" where
  "most_common e ds = and_then (py_set e ds) (\<lambda>s. py_max_key (py_count ds) s)"

text \<open>The dict built for one day (lines 229 to 237). \<^verbatim>\<open>max\<close> and \<^verbatim>\<open>min\<close> over a list
  with a value that is not a number raise TypeError, or hand one to \<^verbatim>\<open>round\<close>, which
  raises TypeError. \<^verbatim>\<open>round\<close> of the mean humidity raises when that double is not finite;
  \<^verbatim>\<open>round(x, 1)\<close> returns a float for every float.\<close>

definition summarise :: "env \<Rightarrow> day_data \<Rightarrow> error + summary" where
  "summarise e dd =
     and_then (as_numbers (dd_temps dd)) (\<lambda>ts.
     and_then (py_max ts) (\<lambda>mx.
     and_then (py_min ts) (\<lambda>mn.
     and_then (most_common e (dd_descriptions dd)) (\<lambda>ds.
     and_then (py_mean e (dd_humidity dd)) (\<lambda>hm.
     and_then (round_float hm) (\<lambda>h.
     and_then (py_mean e (dd_wind dd)) (\<lambda>wm.
     Inr \<lparr>date = dd_date dd, temp_max = py_round mx, temp_min = py_round mn,
          description = ds, humidity = h, wind_speed = float_round1 e wm,
          icon = dd_icon dd\<rparr>)))))))"

fun summarise_all :: "env \<Rightarrow> day_data list \<Rightarrow> error + summary list" where
  "summarise_all e [] = Inr []"
| "summarise_all e (dd # dds) =
     (case summarise e dd of
        Inl err \<Rightarrow> Inl err
      | Inr s \<Rightarrow> (case summarise_all e dds of Inl err \<Rightarrow> Inl err | Inr ss \<Rightarrow> Inr (s # ss)))"

text \<open>The aggregation of the samples of \<^verbatim>\<open>data['list']\<close> (lines 206 to 239).\<close>

definition aggregate :: "env \<Rightarrow> pyval list \<Rightarrow> error + summary list" where
  "aggregate e items =
     and_then (group_items e [] items) (\<lambda>df. summarise_all e (take 7 (map snd df)))"

text \<open>The body of the \<^verbatim>\<open>try\<close> block; \<open>Inr None\<close> when it ends without \<^verbatim>\<open>return\<close>.\<close>

definition forecast_try :: "env \<Rightarrow> string \<Rightarrow> error + summary list option" where
  "forecast_try e city =
     (case http_get e ''forecast'' city of
        RequestFailed \<Rightarrow> Inl RequestException
      | Response status body \<Rightarrow>
          if status = 200 then
            and_then (response_json body) (\<lambda>data.
            and_then (getitem data ''list'') (\<lambda>l.
            and_then (py_iter l) (\<lambda>items.
            and_then (aggregate e items) (\<lambda>fl. Inr (Some fl)))))
          else Inr None)"

text \<open>\<^verbatim>\<open>except Exception\<close> catches what derives from \<^verbatim>\<open>Exception\<close>; anything else would
  leave the function.\<close>

definition get_weekly_forecast :: "env \<Rightarrow> string \<Rightarrow> error + summary list" where
  "get_weekly_forecast e city =
     (case forecast_try e city of
        Inl err \<Rightarrow> if is_Exception err then Inr [] else Inl err
      | Inr (Some fl) \<Rightarrow> Inr fl
      | Inr None \<Rightarrow> Inr [])"

section \<open>get_current_weather\<close>

definition py_round_val :: "pyval \<Rightarrow> error + int" where
  "py_round_val v = and_then (as_number v) (\<lambda>r. Inr (py_round r))"

definition py_capitalize :: "pyval \<Rightarrow> error + string" where
  "py_capitalize v = (case v of PStr s \<Rightarrow> Inr (capitalize s) | _ \<Rightarrow> Inl AttributeError)"

definition current_try :: "env \<Rightarrow> string \<Rightarrow> error + snapshot option" where
  "current_try e city =
     (case http_get e ''weather'' city of
        RequestFailed \<Rightarrow> Inl RequestException
      | Response status body \<Rightarrow>
          if status = 200 then
            and_then (response_json body) (\<lambda>data.
            and_then (getitem data ''name'') (\<lambda>nm.
            and_then (getitem data ''sys'') (\<lambda>sy.
            and_then (getitem sy ''country'') (\<lambda>co.
            and_then (getitem data ''main'') (\<lambda>m1.
            and_then (getitem m1 ''temp'') (\<lambda>t.
            and_then (py_round_val t) (\<lambda>temp.
            and_then (getitem data ''main'') (\<lambda>m2.
            and_then (getitem m2 ''feels_like'') (\<lambda>fl.
            and_then (py_round_val fl) (\<lambda>feels.
            and_then (getitem data ''weather'') (\<lambda>w1.
            and_then (getitem0 w1) (\<lambda>w10.
            and_then (getitem w10 ''description'') (\<lambda>ds.
            and_then (py_capitalize ds) (\<lambda>descr.
            and_then (getitem data ''weather'') (\<lambda>w2.
            and_then (getitem0 w2) (\<lambda>w20.
            and_then (getitem w20 ''icon'') (\<lambda>ic.
            and_then (getitem data ''main'') (\<lambda>m3.
            and_then (getitem m3 ''humidity'') (\<lambda>hu.
            and_then (getitem data ''main'') (\<lambda>m4.
            and_then (getitem m4 ''pressure'') (\<lambda>pr.
            and_then (getitem data ''wind'') (\<lambda>wi.
            and_then (getitem wi ''speed'') (\<lambda>sp.
            Inr (Some \<lparr>cw_city = nm, cw_country = co, cw_temperature = temp,
                       cw_feels_like = feels, cw_description = descr, cw_icon = ic,
                       cw_humidity = hu, cw_pressure = pr, cw_wind_speed = sp,
                       cw_timestamp = now e\<rparr>))))))))))))))))))))))))
          else Inr None)"

definition get_current_weather :: "env \<Rightarrow> string \<Rightarrow> error + snapshot option" where
  "get_current_weather e city =
     (case current_try e city of
        Inl err \<Rightarrow> if is_Exception err then Inr None else Inl err
      | Inr r \<Rightarrow> Inr r)"

section \<open>The store, the session and the request handlers\<close>

record prefs =
  units :: string
  notifications :: bool

text \<open>A document of \<^verbatim>\<open>users\<close>; \<open>uid\<close> is its \<^verbatim>\<open>_id\<close>. A form field that was not sent
  is \<^verbatim>\<open>None\<close>, which the store keeps as null.\<close>

record user =
  uid :: nat
  username :: "string option"
  email :: "string option"
  password :: string
  city :: string
  created_at :: int
  preferences :: prefs

record database =
  users :: "user list"
  weather_queries :: "weather_query list"

record session =
  user_id :: "nat option"
  session_username :: "string option"
  session_city :: "string option"

record app_state =
  db :: database
  sess :: session

datatype http_method = GET | POST

datatype page =
    Redirect string
  | Render_register
  | Render_dashboard user "snapshot option" "summary list"
  | Jsonify "snapshot option" "summary list"

text \<open>What a handler leaves behind: the state, the messages it flashed (text and
  category) and the page it answers with. An exception that leaves the handler is the
  server's error page, with nothing written.\<close>

type_synonym outcome = "app_state \<times> (string \<times> string) list \<times> page"

definition login_required :: "(app_state \<Rightarrow> error + outcome) \<Rightarrow> app_state \<Rightarrow> error + outcome" where
  "login_required f st =
     (if user_id (sess st) = None
      then Inr (st, [(''Please login to access this page'', ''warning'')], Redirect ''login'')
      else f st)"

text \<open>\<^verbatim>\<open>ObjectId(session['user_id'])\<close>.\<close>

definition session_user_id :: "app_state \<Rightarrow> error + nat" where
  "session_user_id st = (case user_id (sess st) of None \<Rightarrow> Inl KeyError | Some i \<Rightarrow> Inr i)"

text \<open>\<^verbatim>\<open>update_one\<close> changes the first document that matches.\<close>

fun update_one :: "('a \<Rightarrow> bool) \<Rightarrow> ('a \<Rightarrow> 'a) \<Rightarrow> 'a list \<Rightarrow> 'a list" where
  "update_one P f [] = []"
| "update_one P f (x # xs) = (if P x then f x # xs else x # update_one P f xs)"

text \<open>\<^verbatim>\<open>insert_one\<close> gives the document an \<^verbatim>\<open>_id\<close> that no other document has.\<close>

definition fresh_id :: "user list \<Rightarrow> nat" where
  "fresh_id us = Suc (fold max (map uid us) 0)"

definition register :: "env \<Rightarrow> app_state \<Rightarrow> http_method \<Rightarrow> (string \<rightharpoonup> string) \<Rightarrow> error + outcome" where
  "register e st method form =
     (if method = POST then
        (let un = form ''username'';
             em = form ''email'';
             pw = form ''password'';
             c = (case form ''city'' of None \<Rightarrow> ''Your city'' | Some v \<Rightarrow> v);
             existing_user = find (\<lambda>u. username u = un \<or> email u = em) (users (db st))
         in if existing_user \<noteq> None
            then Inr (st, [(''Username or email already exists'', ''danger'')],
                      Redirect ''register'')
            else
              and_then
                (case pw of None \<Rightarrow> Inl AttributeError
                 | Some p \<Rightarrow> Inr (generate_password_hash e p)) (\<lambda>hashed_password.
              (let user_data =
                     \<lparr>uid = fresh_id (users (db st)), username = un, email = em,
                      password = hashed_password, city = c, created_at = now e,
                      preferences = \<lparr>units = ''metric'', notifications = True\<rparr>\<rparr>
               in Inr (st\<lparr>db := (db st)\<lparr>users := users (db st) @ [user_data]\<rparr>\<rparr>,
                       [(''Registration successful! Please login.'', ''success'')],
                       Redirect ''login''))))
      else Inr (st, [], Render_register))"

text \<open>
  \<^verbatim>\<open>insert_one\<close> on \<^verbatim>\<open>weather_queries\<close> (lines 125 to 131). The document holds values of
  the provider that nothing has checked. The driver encodes an int in at most 8 bytes and
  raises OverflowError on a larger one, before anything is sent; the ints of the document
  are those of the raw values and the results of \<^verbatim>\<open>round\<close>. A float is stored as a double.
  An exception leaves the handler, and nothing is stored.
\<close>

definition int64 :: "int \<Rightarrow> bool" where
  "int64 i = (- (2 ^ 63) \<le> i \<and> i < 2 ^ 63)"

fun ints_fit :: "pyval \<Rightarrow> bool" where
  "ints_fit PNone = True"
| "ints_fit (PInt i) = int64 i"
| "ints_fit (PFloat r) = True"
| "ints_fit (PStr s) = True"
| "ints_fit (PList xs) = (\<forall>x\<in>set xs. ints_fit x)"
| "ints_fit (PDict kvs) = (\<forall>x\<in>set (map snd kvs). ints_fit x)"

definition snapshot_ints_fit :: "snapshot \<Rightarrow> bool" where
  "snapshot_ints_fit w =
     (ints_fit (cw_city w) \<and> ints_fit (cw_country w) \<and> int64 (cw_temperature w) \<and>
      int64 (cw_feels_like w) \<and> ints_fit (cw_icon w) \<and> ints_fit (cw_humidity w) \<and>
      ints_fit (cw_pressure w) \<and> ints_fit (cw_wind_speed w))"

definition summary_ints_fit :: "summary \<Rightarrow> bool" where
  "summary_ints_fit s =
     (int64 (temp_max s) \<and> int64 (temp_min s) \<and> ints_fit (description s) \<and>
      int64 (humidity s) \<and> ints_fit (icon s))"

definition query_ints_fit :: "weather_query \<Rightarrow> bool" where
  "query_ints_fit q =
     (snapshot_ints_fit (weather_data q) \<and> list_all summary_ints_fit (forecast q))"

definition storable :: "env \<Rightarrow> weather_query \<Rightarrow> bool" where
  "storable e q = (query_ints_fit q \<and> store_accepts e q)"

definition insert_weather_query :: "env \<Rightarrow> weather_query \<Rightarrow> database \<Rightarrow> error + database" where
  "insert_weather_query e q d =
     (if \<not> query_ints_fit q then Inl OverflowError
      else if \<not> store_accepts e q then Inl PyMongoError
      else Inr (d\<lparr>weather_queries := weather_queries d @ [q]\<rparr>))"

definition dashboard :: "env \<Rightarrow> app_state \<Rightarrow> error + outcome" where
  "dashboard e =
     login_required (\<lambda>st.
       and_then (session_user_id st) (\<lambda>i.
       (case find (\<lambda>u. uid u = i) (users (db st)) of
          None \<Rightarrow> Inl AttributeError
        | Some u \<Rightarrow>
            and_then (get_current_weather e (city u)) (\<lambda>current_weather.
            and_then (get_weekly_forecast e (city u)) (\<lambda>fc.
            and_then
              (case current_weather of
                 None \<Rightarrow> Inr (db st)
               | Some w \<Rightarrow>
                   insert_weather_query e
                     \<lparr>wq_user_id = i, wq_city = city u, query_time = now e,
                      weather_data = w, forecast = fc\<rparr> (db st)) (\<lambda>d.
            Inr (st\<lparr>db := d\<rparr>, [], Render_dashboard u current_weather fc)))))))"

definition update_city :: "app_state \<Rightarrow> (string \<rightharpoonup> string) \<Rightarrow> error + outcome" where
  "update_city st0 form =
     login_required (\<lambda>st.
       (case form ''city'' of
          None \<Rightarrow> Inr (st, [], Redirect ''dashboard'')
        | Some c \<Rightarrow>
            if c \<noteq> [] then
              and_then (session_user_id st) (\<lambda>i.
              Inr (st\<lparr>db := (db st)\<lparr>users :=
                         update_one (\<lambda>u. uid u = i) (\<lambda>u. u\<lparr>city := c\<rparr>) (users (db st))\<rparr>,
                      sess := (sess st)\<lparr>session_city := Some c\<rparr>\<rparr>,
                   [(''City updated to '' @ c, ''success'')],
                   Redirect ''dashboard''))
            else Inr (st, [], Redirect ''dashboard''))) st0"

definition api_weather :: "env \<Rightarrow> app_state \<Rightarrow> string \<Rightarrow> error + outcome" where
  "api_weather e st0 c =
     login_required (\<lambda>st.
       and_then (get_current_weather e c) (\<lambda>current_weather.
       and_then (get_weekly_forecast e c) (\<lambda>fc.
       Inr (st, [], Jsonify current_weather fc)))) st0"

definition update_preferences :: "app_state \<Rightarrow> (string \<rightharpoonup> string) \<Rightarrow> error + outcome" where
  "update_preferences st0 form =
     login_required (\<lambda>st.
       (let un = (case form ''units'' of None \<Rightarrow> ''metric'' | Some v \<Rightarrow> v);
            nt = (form ''notifications'' = Some ''on'')
        in and_then (session_user_id st) (\<lambda>i.
           Inr (st\<lparr>db := (db st)\<lparr>users :=
                      update_one (\<lambda>u. uid u = i)
                        (\<lambda>u. u\<lparr>preferences := (preferences u)\<lparr>units := un, notifications := nt\<rparr>\<rparr>)
                        (users (db st))\<rparr>\<rparr>,
                [(''Preferences updated successfully'', ''success'')],
                Redirect ''profile'')))) st0"

section \<open>What the aggregation is measured against\<close>

text \<open>The fields one pass of the loop reads from an item, in the order it reads them
  (the icon, read for the first item of a date only, apart).\<close>

record sample =
  s_date :: date
  s_temp :: pyval
  s_description :: pyval
  s_humidity :: pyval
  s_wind :: pyval

definition read_sample :: "env \<Rightarrow> pyval \<Rightarrow> error + sample" where
  "read_sample e item =
     and_then (getitem item ''dt'') (\<lambda>dt.
     and_then (fromtimestamp_date e dt) (\<lambda>d.
     and_then (getitem item ''main'') (\<lambda>m.
     and_then (getitem m ''temp'') (\<lambda>t.
     and_then (getitem item ''weather'') (\<lambda>w.
     and_then (getitem0 w) (\<lambda>w0.
     and_then (getitem w0 ''description'') (\<lambda>ds.
     and_then (getitem m ''humidity'') (\<lambda>h.
     and_then (getitem item ''wind'') (\<lambda>wi.
     and_then (getitem wi ''speed'') (\<lambda>sp.
     Inr \<lparr>s_date = d, s_temp = t, s_description = ds, s_humidity = h, s_wind = sp\<rparr>))))))))))"

fun read_samples :: "env \<Rightarrow> pyval list \<Rightarrow> error + sample list" where
  "read_samples e [] = Inr []"
| "read_samples e (item # items) =
     (case read_sample e item of
        Inl err \<Rightarrow> Inl err
      | Inr s \<Rightarrow> (case read_samples e items of Inl err \<Rightarrow> Inl err | Inr ss \<Rightarrow> Inr (s # ss)))"

text \<open>The samples of one calendar date, in input order.\<close>

definition samples_of_day :: "date \<Rightarrow> sample list \<Rightarrow> sample list" where
  "samples_of_day d ss = filter (\<lambda>s. s_date s = d) ss"

text \<open>An entry of \<^verbatim>\<open>daily_forecast\<close> holds exactly the samples of its date.\<close>

definition day_agrees :: "env \<Rightarrow> sample list \<Rightarrow> date \<times> day_data \<Rightarrow> bool" where
  "day_agrees e ss kv =
     (dd_date (snd kv) = date_label e (fst kv) \<and>
      dd_temps (snd kv) = map s_temp (samples_of_day (fst kv) ss) \<and>
      dd_descriptions (snd kv) = map s_description (samples_of_day (fst kv) ss) \<and>
      dd_humidity (snd kv) = map s_humidity (samples_of_day (fst kv) ss) \<and>
      dd_wind (snd kv) = map s_wind (samples_of_day (fst kv) ss))"

text \<open>The invariant of the loop: after the samples \<open>ss\<close>, the keys of \<^verbatim>\<open>daily_forecast\<close>
  are the dates of \<open>ss\<close> in order of first occurrence and every entry agrees with \<open>ss\<close>.\<close>

definition grouped :: "env \<Rightarrow> sample list \<Rightarrow> daily_forecast \<Rightarrow> bool" where
  "grouped e ss df = (map fst df = first_seen (map s_date ss) \<and> list_all (day_agrees e ss) df)"

text \<open>The tie-break as the specification words it: of the descriptions with the highest
  count, the one that appears first among the samples.\<close>

definition earliest_mode :: "pyval list \<Rightarrow> pyval option" where
  "earliest_mode ds = find (\<lambda>x. list_all (\<lambda>y. py_count ds y \<le> py_count ds x) ds) ds"

text \<open>What the code picks: of the descriptions with the highest count, the one that comes
  first when the set of descriptions is iterated.\<close>

definition set_order_mode :: "env \<Rightarrow> pyval list \<Rightarrow> pyval option" where
  "set_order_mode e ds =
     find (\<lambda>x. list_all (\<lambda>y. py_count ds y \<le> py_count ds x) ds)
       (sort_key (\<lambda>x. set_slot e (py_key x)) (py_distinct ds))"

section \<open>Example data\<close>

text \<open>Timestamps and humidity are ints, temperatures and wind speeds floats. The floats
  are integers and halves, so that every sum, mean and rounding of the examples is a double
  and the exact arithmetic of the example environment is what the code computes.\<close>

definition demo_sample :: "int \<Rightarrow> rat \<Rightarrow> string \<Rightarrow> int \<Rightarrow> rat \<Rightarrow> pyval" where
  "demo_sample dt t ds h sp =
     PDict [(''dt'', PInt dt),
            (''main'', PDict [(''temp'', PFloat t), (''humidity'', PInt h)]),
            (''weather'', PList [PDict [(''description'', PStr ds), (''icon'', PStr ''04d'')]]),
            (''wind'', PDict [(''speed'', PFloat sp)])]"

text \<open>Four samples of 2024-01-01 (day 19723), two descriptions with two samples each.\<close>

definition tie_items :: "pyval list" where
  "tie_items =
     [demo_sample 1704067200 10 ''cloudy'' 80 (5 / 2),
      demo_sample 1704078000 15 ''cloudy'' 71 (7 / 2),
      demo_sample 1704088800 12 ''rain'' 90 (5 / 2),
      demo_sample 1704099600 11 ''rain'' 85 (7 / 2)]"

text \<open>Nine samples over eight dates, the first date twice.\<close>

definition week_items :: "pyval list" where
  "week_items =
     [demo_sample 1704067200 10 ''clear sky'' 80 4,
      demo_sample 1704153600 5 ''light rain'' 60 2,
      demo_sample 1704078000 15 ''clear sky'' 71 5,
      demo_sample 1704240000 7 ''snow'' 90 1,
      demo_sample 1704326400 8 ''snow'' 91 1,
      demo_sample 1704412800 9 ''mist'' 92 1,
      demo_sample 1704499200 3 ''mist'' 93 1,
      demo_sample 1704585600 2 ''fog'' 94 1,
      demo_sample 1704672000 1 ''fog'' 95 1]"

text \<open>An answer to the current-weather request, with a given humidity.\<close>

definition current_with_humidity :: "pyval \<Rightarrow> pyval" where
  "current_with_humidity h =
     PDict [(''name'', PStr ''London''),
            (''sys'', PDict [(''country'', PStr ''GB'')]),
            (''main'', PDict [(''temp'', PFloat (25 / 2)), (''feels_like'', PFloat (23 / 2)),
                              (''humidity'', h), (''pressure'', PInt 1012)]),
            (''weather'', PList [PDict [(''description'', PStr ''light rain''),
                                        (''icon'', PStr ''10d'')]]),
            (''wind'', PDict [(''speed'', PFloat (9 / 2))])]"

definition demo_current :: pyval where
  "demo_current = current_with_humidity (PInt 81)"

text \<open>Floating point in the example environment: the exact mean and the exact rounding to
  one decimal place.\<close>

definition exact_mean :: "pyval list \<Rightarrow> error + pyfloat" where
  "exact_mean xs =
     (case as_numbers xs of
        Inl err \<Rightarrow> Inl err
      | Inr rs \<Rightarrow> Inr (Finite (sum_list rs / of_nat (length rs))))"

fun exact_round1 :: "pyfloat \<Rightarrow> pyfloat" where
  "exact_round1 (Finite r) = Finite (of_int (py_round (r * 10)) / 10)"
| "exact_round1 PosInf = PosInf"
| "exact_round1 NegInf = NegInf"
| "exact_round1 NaN = NaN"

text \<open>A provider that knows London only, a clock in UTC, a set order given by \<open>slot\<close>, and
  a store that takes every document whose integers fit.\<close>

definition demo_env :: "(pyval \<Rightarrow> nat) \<Rightarrow> pyval list \<Rightarrow> env" where
  "demo_env slot items =
     \<lparr>http_get = (\<lambda>endpoint c.
        if c = ''London'' then
          (if endpoint = ''weather'' then Response 200 (Some demo_current)
           else Response 200 (Some (PDict [(''list'', PList items)])))
        else Response 404 (Some (PDict [(''cod'', PStr ''404'')]))),
      local_date = (\<lambda>t. Inr \<lfloor>t / 86400\<rfloor>),
      date_label = (\<lambda>d.
        case map_of [(19723, ''Monday, January 01''), (19724, ''Tuesday, January 02''),
                     (19725, ''Wednesday, January 03''), (19726, ''Thursday, January 04''),
                     (19727, ''Friday, January 05''), (19728, ''Saturday, January 06''),
                     (19729, ''Sunday, January 07''), (19730, ''Monday, January 08'')] d of
          None \<Rightarrow> ''Another day''
        | Some l \<Rightarrow> l),
      set_slot = slot,
      float_mean = exact_mean,
      float_round1 = exact_round1,
      store_accepts = (\<lambda>q. True),
      now = 1704100000,
      generate_password_hash = (\<lambda>p. ''pbkdf2:'' @ p)\<rparr>"

definition insertion_slot :: "pyval \<Rightarrow> nat" where
  "insertion_slot v = 0"

definition rain_first_slot :: "pyval \<Rightarrow> nat" where
  "rain_first_slot v = (if v = PStr ''rain'' then 0 else 1)"

definition alice :: user where
  "alice =
     \<lparr>uid = 1, username = Some ''alice'', email = Some ''alice@example.org'',
      password = ''pbkdf2:secret'', city = ''London'', created_at = 1704000000,
      preferences = \<lparr>units = ''metric'', notifications = True\<rparr>\<rparr>"

definition bob :: user where
  "bob =
     \<lparr>uid = 2, username = Some ''bob'', email = Some ''bob@example.org'',
      password = ''pbkdf2:hunter2'', city = ''Atlantis'', created_at = 1704000001,
      preferences = \<lparr>units = ''metric'', notifications = False\<rparr>\<rparr>"

definition logged_in :: "user \<Rightarrow> app_state" where
  "logged_in u =
     \<lparr>db = \<lparr>users = [alice, bob], weather_queries = []\<rparr>,
      sess = \<lparr>user_id = Some (uid u), session_username = username u,
              session_city = Some (city u)\<rparr>\<rparr>"

definition anonymous :: app_state where
  "anonymous =
     \<lparr>db = \<lparr>users = [alice, bob], weather_queries = []\<rparr>,
      sess = \<lparr>user_id = None, session_username = None, session_city = None\<rparr>\<rparr>"

definition carol_form :: "string \<rightharpoonup> string" where
  "carol_form = [''username'' \<mapsto> ''carol'', ''email'' \<mapsto> ''carol@example.org'',
                 ''password'' \<mapsto> ''pw'', ''city'' \<mapsto> ''Paris'']"

definition carol_again_form :: "string \<rightharpoonup> string" where
  "carol_again_form = [''username'' \<mapsto> ''carol'', ''email'' \<mapsto> ''other@example.org'',
                 ''password'' \<mapsto> ''pw2'']"

definition alice_again_form :: "string \<rightharpoonup> string" where
  "alice_again_form = [''username'' \<mapsto> ''alice'', ''email'' \<mapsto> ''new@example.org'',
                 ''password'' \<mapsto> ''pw'']"

text \<open>A provider that gives the same answer to every request.\<close>

definition broken_env :: "http_result \<Rightarrow> env" where
  "broken_env r = (demo_env insertion_slot [])\<lparr>http_get := (\<lambda>endpoint c. r)\<rparr>"

text \<open>The same provider, reporting a humidity of \<open>2 ^ 63\<close> for London.\<close>

definition huge_humidity_env :: env where
  "huge_humidity_env =
     (demo_env insertion_slot week_items)
       \<lparr>http_get := (\<lambda>endpoint c.
          if endpoint = ''weather''
          then Response 200 (Some (current_with_humidity (PInt 9223372036854775808)))
          else Response 200 (Some (PDict [(''list'', PList week_items)])))\<rparr>"

section \<open>Auxiliary facts\<close>

lemma py_round_cases: "py_round x = \<lfloor>x\<rfloor> \<or> py_round x = \<lfloor>x\<rfloor> + 1"
  by (simp add: py_round_def Let_def)

lemma py_round_nearest: "\<bar>of_int (py_round x) - x\<bar> \<le> 1 / 2"
proof -
  have a: "of_int \<lfloor>x\<rfloor> \<le> x" and b: "x < of_int \<lfloor>x\<rfloor> + 1" by linarith+
  consider "x - of_int \<lfloor>x\<rfloor> < 1 / 2" | "1 / 2 < x - of_int \<lfloor>x\<rfloor>" | "x - of_int \<lfloor>x\<rfloor> = 1 / 2"
    by linarith
  then show ?thesis
  proof cases
    case 1
    then have "py_round x = \<lfloor>x\<rfloor>" by (simp add: py_round_def Let_def)
    then show ?thesis using a 1 by (simp add: abs_le_iff)
  next
    case 2
    then have "py_round x = \<lfloor>x\<rfloor> + 1" by (simp add: py_round_def Let_def)
    then show ?thesis using b 2 by (simp add: abs_le_iff)
  next
    case 3
    then have "py_round x = \<lfloor>x\<rfloor> \<or> py_round x = \<lfloor>x\<rfloor> + 1" by (simp add: py_round_def Let_def)
    then show ?thesis using 3 by (auto simp: abs_le_iff)
  qed
qed

lemma py_round_mono: "x \<le> y \<Longrightarrow> py_round x \<le> py_round y"
proof -
  assume xy: "x \<le> y"
  have fl: "\<lfloor>x\<rfloor> \<le> \<lfloor>y\<rfloor>" using xy by (rule floor_mono)
  show ?thesis
  proof (cases "\<lfloor>x\<rfloor> = \<lfloor>y\<rfloor>")
    case True
    then have "x - of_int \<lfloor>x\<rfloor> \<le> y - of_int \<lfloor>y\<rfloor>" using xy by simp
    then show ?thesis using True by (auto simp: py_round_def Let_def)
  next
    case False
    then have "\<lfloor>x\<rfloor> + 1 \<le> \<lfloor>y\<rfloor>" using fl by simp
    moreover have "py_round x \<le> \<lfloor>x\<rfloor> + 1" using py_round_cases [of x] by auto
    moreover have "\<lfloor>y\<rfloor> \<le> py_round y" using py_round_cases [of y] by auto
    ultimately show ?thesis by linarith
  qed
qed

lemma fold_max_ge: "(b::rat) \<le> fold (\<lambda>y best. if best < y then y else best) xs b"
  by (induction xs arbitrary: b) (auto intro: order_trans less_imp_le)

lemma fold_min_le: "fold (\<lambda>y best. if y < best then y else best) xs b \<le> (b::rat)"
  by (induction xs arbitrary: b) (auto intro: order_trans less_imp_le)

lemma py_min_le_py_max: "py_max ts = Inr mx \<Longrightarrow> py_min ts = Inr mn \<Longrightarrow> mn \<le> mx"
proof (cases ts)
  case Nil
  assume "py_max ts = Inr mx" with Nil show ?thesis by simp
next
  case (Cons t ts')
  assume "py_max ts = Inr mx" "py_min ts = Inr mn"
  with Cons have "mn \<le> t" "t \<le> mx" using fold_min_le fold_max_ge by auto
  then show ?thesis by simp
qed

lemma and_then_Inr: "and_then m f = Inr y \<longleftrightarrow> (\<exists>x. m = Inr x \<and> f x = Inr y)"
  by (cases m) (simp_all add: and_then_def)

lemma summarise_temps: "summarise e dd = Inr s \<Longrightarrow> temp_min s \<le> temp_max s"
  by (auto simp: summarise_def and_then_Inr intro!: py_round_mono py_min_le_py_max)

lemma summarise_all_rel: "summarise_all e dds = Inr fl \<Longrightarrow> list_all2 (\<lambda>dd s. summarise e dd = Inr s) dds fl"
  by (induction dds arbitrary: fl) (auto split: sum.splits)

lemma aggregate_length: "aggregate e items = Inr fl \<Longrightarrow> length fl \<le> 7"
  by (auto simp: aggregate_def and_then_Inr dest!: summarise_all_rel list_all2_lengthD)

lemma aggregate_temps: "aggregate e items = Inr fl \<Longrightarrow> s \<in> set fl \<Longrightarrow> temp_min s \<le> temp_max s"
proof -
  assume a: "aggregate e items = Inr fl" and s: "s \<in> set fl"
  from a obtain dds where "list_all2 (\<lambda>dd s. summarise e dd = Inr s) dds fl"
    by (auto simp: aggregate_def and_then_Inr dest: summarise_all_rel)
  with s obtain dd where "summarise e dd = Inr s"
    by (auto simp: list_all2_conv_all_nth in_set_conv_nth)
  then show ?thesis by (rule summarise_temps)
qed

lemma is_Exception_all: "is_Exception err"
  by (cases err) simp_all

lemma get_weekly_forecast_cases:
  "get_weekly_forecast e c = Inr [] \<or>
   (\<exists>items fl. aggregate e items = Inr fl \<and> get_weekly_forecast e c = Inr fl)"
  by (auto simp: get_weekly_forecast_def forecast_try_def and_then_Inr is_Exception_all
      split: sum.splits option.splits http_result.splits if_splits)

lemma floor_rat_numeral_div: "\<lfloor>numeral a / numeral b :: rat\<rfloor> = numeral a div numeral b"
  by (metis floor_divide_of_int_eq of_int_numeral)

lemmas demo_defs = demo_env_def demo_current_def current_with_humidity_def demo_sample_def
  tie_items_def week_items_def exact_mean_def insertion_slot_def rain_first_slot_def
  alice_def bob_def logged_in_def anonymous_def

lemmas weather_defs = get_weekly_forecast_def forecast_try_def get_current_weather_def
  current_try_def response_json_def and_then_def aggregate_def add_item_def
  fromtimestamp_date_def new_day_def update_day_def append_sample_def summarise_def
  most_common_def py_set_def py_count_def py_mean_def py_round_def py_round_val_def
  py_capitalize_def ascii_upper_def ascii_lower_def floor_rat_numeral_div Let_def

lemma find_update_one:
  "find P xs = Some x \<Longrightarrow> (\<And>y. P (f y) = P y) \<Longrightarrow> find P (update_one P f xs) = Some (f x)"
  by (induction xs) (auto split: if_splits)

section \<open>Updating the city and the preferences\<close>

text \<open>
  C9. A logged-in user posts \<^verbatim>\<open>/update_city\<close> with the field \<^verbatim>\<open>city\<close> missing or empty:
  the store and the session stay as they were, nothing is flashed, and the answer is the
  redirect to the dashboard.
\<close>

theorem update_city_without_city:
  assumes "user_id (sess st) \<noteq> None"
    and "form ''city'' = None \<or> form ''city'' = Some []"
  shows "update_city st form = Inr (st, [], Redirect ''dashboard'')"
  using assms by (auto simp: update_city_def login_required_def)

theorem update_city_without_city_witness:
  "update_city (logged_in alice) (Map.empty(''city'' \<mapsto> [])) =
     Inr (logged_in alice, [], Redirect ''dashboard'')
   \<and> update_city (logged_in alice) Map.empty = Inr (logged_in alice, [], Redirect ''dashboard'')
   \<and> user_id (sess (logged_in alice)) = Some 1"
proof -
  have h: "user_id (sess (logged_in alice)) \<noteq> None" by (simp add: logged_in_def)
  show ?thesis
    using update_city_without_city [OF h, of "Map.empty(''city'' \<mapsto> [])"]
      update_city_without_city [OF h, of Map.empty]
    by (simp add: logged_in_def alice_def)
qed

text \<open>
  C8, as the claim states it, fails: the handler stores the \<^verbatim>\<open>units\<close> field as it was
  sent. Alice posts \<^verbatim>\<open>units=kelvin\<close> and her stored unit system is \<^verbatim>\<open>kelvin\<close>.
\<close>

theorem update_preferences_units_counterexample:
  "\<exists>st'. update_preferences (logged_in alice) (Map.empty(''units'' \<mapsto> ''kelvin'')) =
      Inr (st', [(''Preferences updated successfully'', ''success'')], Redirect ''profile'')
    \<and> map (\<lambda>u. units (preferences u)) (users (db st')) = [''kelvin'', ''metric'']
    \<and> ''kelvin'' \<notin> {''metric'', ''imperial''}"
  by (simp add: update_preferences_def login_required_def session_user_id_def and_then_def
      Let_def logged_in_def alice_def bob_def)

text \<open>
  C8, amended. After a logged-in user whose record exists posts \<^verbatim>\<open>/update_preferences\<close>,
  the stored \<^verbatim>\<open>preferences.units\<close> of that user is the submitted \<^verbatim>\<open>units\<close> field, or
  \<^verbatim>\<open>metric\<close> when the field was not sent.
\<close>

theorem update_preferences_stores_form_value:
  assumes "user_id (sess st) = Some i"
    and "find (\<lambda>u. uid u = i) (users (db st)) = Some u"
  shows "\<exists>st'. update_preferences st form =
            Inr (st', [(''Preferences updated successfully'', ''success'')], Redirect ''profile'')
          \<and> (\<exists>u'. find (\<lambda>u. uid u = i) (users (db st')) = Some u'
                \<and> units (preferences u') =
                    (case form ''units'' of None \<Rightarrow> ''metric'' | Some v \<Rightarrow> v))"
  using assms
  by (simp add: update_preferences_def login_required_def session_user_id_def and_then_def
      Let_def find_update_one)

theorem update_preferences_stores_form_value_witness:
  "\<exists>st'. update_preferences (logged_in alice) (Map.empty(''units'' \<mapsto> ''imperial'')) =
            Inr (st', [(''Preferences updated successfully'', ''success'')], Redirect ''profile'')
          \<and> (\<exists>u'. find (\<lambda>u. uid u = 1) (users (db st')) = Some u'
                \<and> units (preferences u') = ''imperial'')"
proof -
  have a: "user_id (sess (logged_in alice)) = Some 1" by (simp add: logged_in_def alice_def)
  have b: "find (\<lambda>u. uid u = 1) (users (db (logged_in alice))) = Some alice"
    by (simp add: logged_in_def alice_def)
  show ?thesis
    using update_preferences_stores_form_value [OF a b, of "Map.empty(''units'' \<mapsto> ''imperial'')"]
    by simp
qed

section \<open>Registration\<close>

lemma find_not_None: "(\<exists>x\<in>set xs. P x) \<Longrightarrow> find P xs \<noteq> None"
  by (auto simp: find_None_iff)

text \<open>
  C6. A registration whose username or email is already in the user store answers with
  the duplicate message and leaves the store as it was; so after a registration that
  succeeded (one record more), a second one with the same username is rejected and adds
  nothing. No registration, accepted or rejected, touches the session: the caller is not
  logged in by it.
\<close>

theorem register_duplicate_rejected:
  "((\<exists>u\<in>set (users (db st)). username u = form ''username'' \<or> email u = form ''email'') \<longrightarrow>
      register e st POST form =
        Inr (st, [(''Username or email already exists'', ''danger'')], Redirect ''register''))
   \<and> (\<forall>st1 fl1 form2 e2 r2.
        register e st POST form = Inr (st1, fl1, Redirect ''login'') \<and>
        form2 ''username'' = form ''username'' \<and> register e2 st1 POST form2 = r2 \<longrightarrow>
        length (users (db st1)) = Suc (length (users (db st))) \<and>
        r2 = Inr (st1, [(''Username or email already exists'', ''danger'')], Redirect ''register''))
   \<and> (\<forall>st1 fl1 pg1. register e st m form = Inr (st1, fl1, pg1) \<longrightarrow> sess st1 = sess st)"
proof (intro conjI allI impI)
  assume "\<exists>u\<in>set (users (db st)). username u = form ''username'' \<or> email u = form ''email''"
  then have "find (\<lambda>u. username u = form ''username'' \<or> email u = form ''email'') (users (db st)) \<noteq> None"
    by (rule find_not_None)
  then show "register e st POST form =
        Inr (st, [(''Username or email already exists'', ''danger'')], Redirect ''register'')"
    by (simp add: register_def Let_def)
next
  fix st1 fl1 form2 e2 r2
  assume a: "register e st POST form = Inr (st1, fl1, Redirect ''login'') \<and>
        form2 ''username'' = form ''username'' \<and> register e2 st1 POST form2 = r2"
  then have u1: "\<exists>h. users (db st1) = users (db st) @
       [\<lparr>uid = fresh_id (users (db st)), username = form ''username'', email = form ''email'',
         password = h, city = (case form ''city'' of None \<Rightarrow> ''Your city'' | Some v \<Rightarrow> v),
         created_at = now e, preferences = \<lparr>units = ''metric'', notifications = True\<rparr>\<rparr>]"
    by (auto simp: register_def Let_def and_then_Inr split: if_splits option.splits)
  then show "length (users (db st1)) = Suc (length (users (db st)))" by auto
  from u1 have "\<exists>u\<in>set (users (db st1)). username u = form2 ''username'' \<or> email u = form2 ''email''"
    using a by auto
  then have "find (\<lambda>u. username u = form2 ''username'' \<or> email u = form2 ''email'') (users (db st1)) \<noteq> None"
    by (rule find_not_None)
  then show "r2 = Inr (st1, [(''Username or email already exists'', ''danger'')], Redirect ''register'')"
    using a by (auto simp: register_def Let_def)
next
  fix st1 fl1 pg1
  assume "register e st m form = Inr (st1, fl1, pg1)"
  then show "sess st1 = sess st"
    by (auto simp: register_def Let_def and_then_Inr split: if_splits option.splits)
qed

theorem register_duplicate_rejected_witness:
  "register (demo_env insertion_slot []) anonymous POST alice_again_form =
     Inr (anonymous, [(''Username or email already exists'', ''danger'')], Redirect ''register'')
   \<and> (\<exists>st1. register (demo_env insertion_slot []) anonymous POST carol_form =
          Inr (st1, [(''Registration successful! Please login.'', ''success'')], Redirect ''login'')
        \<and> length (users (db st1)) = 3
        \<and> sess st1 = sess anonymous
        \<and> register (demo_env insertion_slot []) st1 POST carol_again_form =
          Inr (st1, [(''Username or email already exists'', ''danger'')], Redirect ''register''))"
proof -
  let ?e = "demo_env insertion_slot []"
  let ?fl = "[(''Registration successful! Please login.'', ''success'')]"
  have "\<exists>st1. register ?e anonymous POST carol_form = Inr (st1, ?fl, Redirect ''login'')"
    by (simp add: register_def carol_form_def demo_defs and_then_def fresh_id_def)
  then obtain st1 where r1: "register ?e anonymous POST carol_form = Inr (st1, ?fl, Redirect ''login'')" ..
  have dup: "\<exists>u\<in>set (users (db anonymous)).
      username u = alice_again_form ''username'' \<or> email u = alice_again_form ''email''"
    by (simp add: demo_defs alice_again_form_def)
  have same: "carol_again_form ''username'' = carol_form ''username''"
    by (simp add: carol_form_def carol_again_form_def)
  have len: "length (users (db anonymous)) = 2" by (simp add: anonymous_def)
  have a: "register ?e anonymous POST alice_again_form =
     Inr (anonymous, [(''Username or email already exists'', ''danger'')], Redirect ''register'')"
    using register_duplicate_rejected [of anonymous alice_again_form ?e, THEN conjunct1] dup
    by (rule mp)
  have b: "length (users (db st1)) = Suc (length (users (db anonymous))) \<and>
        register ?e st1 POST carol_again_form =
          Inr (st1, [(''Username or email already exists'', ''danger'')], Redirect ''register'')"
    using register_duplicate_rejected [of anonymous carol_form ?e, THEN conjunct2, THEN conjunct1,
        rule_format, of st1 ?fl carol_again_form ?e] r1 same
    by simp
  have c: "sess st1 = sess anonymous"
    using register_duplicate_rejected [of anonymous carol_form ?e POST, THEN conjunct2,
        THEN conjunct2, rule_format, of st1 ?fl "Redirect ''login''"] r1
    by simp
  show ?thesis
    apply (rule conjI [OF a])
    apply (rule exI [of _ st1])
    using r1 b c len apply simp
    done
qed

section \<open>The weather functions at their boundary\<close>

lemma get_weekly_forecast_total: "\<exists>fl. get_weekly_forecast e c = Inr fl"
  by (auto simp: get_weekly_forecast_def is_Exception_all split: sum.splits option.splits)

lemma get_current_weather_total: "\<exists>r. get_current_weather e c = Inr r"
  by (auto simp: get_current_weather_def is_Exception_all split: sum.splits)

text \<open>Ways for the \<^verbatim>\<open>try\<close> block to raise: the request fails, the body is not JSON, a
  field is missing, a timestamp is a string.\<close>

lemma request_failed_raises:
  "current_try (broken_env RequestFailed) ''London'' = Inl RequestException"
  by (simp add: broken_env_def current_try_def demo_defs)

lemma not_json_raises:
  "current_try (broken_env (Response 200 None)) ''London'' = Inl ValueError"
  by (simp add: broken_env_def current_try_def demo_defs response_json_def and_then_def)

lemma missing_field_raises:
  "current_try (broken_env (Response 200 (Some (PDict [(''name'', PStr ''London'')]))))
     ''London'' = Inl KeyError"
  by (simp add: broken_env_def weather_defs demo_defs)

lemma bad_timestamp_raises:
  "forecast_try
     (broken_env (Response 200 (Some (PDict [(''list'', PList [PDict [(''dt'', PStr ''x'')]])]))))
     ''London'' = Inl TypeError"
  by (simp add: broken_env_def weather_defs demo_defs)

lemma week_forecast_value:
  "get_weekly_forecast (demo_env insertion_slot week_items) ''London'' =
   Inr [\<lparr>date = ''Monday, January 01'', temp_max = 15, temp_min = 10,
         description = PStr ''clear sky'', humidity = 76,
         wind_speed = Finite (9 / 2), icon = PStr ''04d''\<rparr>,
      \<lparr>date = ''Tuesday, January 02'', temp_max = 5, temp_min = 5,
         description = PStr ''light rain'', humidity = 60, wind_speed = Finite 2,
         icon = PStr ''04d''\<rparr>,
      \<lparr>date = ''Wednesday, January 03'', temp_max = 7, temp_min = 7,
         description = PStr ''snow'', humidity = 90, wind_speed = Finite 1,
         icon = PStr ''04d''\<rparr>,
      \<lparr>date = ''Thursday, January 04'', temp_max = 8, temp_min = 8,
         description = PStr ''snow'', humidity = 91, wind_speed = Finite 1,
         icon = PStr ''04d''\<rparr>,
      \<lparr>date = ''Friday, January 05'', temp_max = 9, temp_min = 9,
         description = PStr ''mist'', humidity = 92, wind_speed = Finite 1,
         icon = PStr ''04d''\<rparr>,
      \<lparr>date = ''Saturday, January 06'', temp_max = 3, temp_min = 3,
         description = PStr ''mist'', humidity = 93, wind_speed = Finite 1,
         icon = PStr ''04d''\<rparr>,
      \<lparr>date = ''Sunday, January 07'', temp_max = 2, temp_min = 2,
         description = PStr ''fog'', humidity = 94, wind_speed = Finite 1,
         icon = PStr ''04d''\<rparr>]"
  by (simp add: weather_defs demo_defs)

lemma demo_current_value:
  "get_current_weather (demo_env slot items) ''London'' =
   Inr (Some
       \<lparr>cw_city = PStr ''London'', cw_country = PStr ''GB'',
          cw_temperature = 12, cw_feels_like = 12,
          cw_description = ''Light rain'', cw_icon = PStr ''10d'',
          cw_humidity = PInt 81, cw_pressure = PInt 1012,
          cw_wind_speed = PFloat (9 / 2), cw_timestamp = 1704100000\<rparr>)"
  by (simp add: weather_defs demo_defs)

text \<open>
  C10. \<^verbatim>\<open>get_current_weather\<close> and \<^verbatim>\<open>get_weekly_forecast\<close> return for every answer of the
  provider: no exception leaves them. Whenever the body of the \<^verbatim>\<open>try\<close> block raises (the
  request fails, the body is not JSON, a field is missing or of the wrong type) or the
  status is not 200, the result is \<^verbatim>\<open>None\<close> and the empty list respectively.
\<close>

theorem weather_functions_never_raise:
  "(\<exists>r. get_current_weather e c = Inr r)
   \<and> (\<exists>fl. get_weekly_forecast e c = Inr fl)
   \<and> (\<forall>err. current_try e c = Inl err \<longrightarrow> get_current_weather e c = Inr None)
   \<and> (\<forall>err. forecast_try e c = Inl err \<longrightarrow> get_weekly_forecast e c = Inr [])
   \<and> (\<forall>status body. http_get e ''weather'' c = Response status body \<and> status \<noteq> 200 \<longrightarrow>
         get_current_weather e c = Inr None)
   \<and> (\<forall>status body. http_get e ''forecast'' c = Response status body \<and> status \<noteq> 200 \<longrightarrow>
         get_weekly_forecast e c = Inr [])"
  by (auto simp: get_weekly_forecast_def get_current_weather_def is_Exception_all
        current_try_def forecast_try_def
      split: sum.splits option.splits)

theorem weather_functions_never_raise_witness:
  "get_current_weather (broken_env RequestFailed) ''London'' = Inr None
   \<and> get_current_weather (broken_env (Response 200 None)) ''London'' = Inr None
   \<and> get_current_weather
        (broken_env (Response 200 (Some (PDict [(''name'', PStr ''London'')])))) ''London'' =
       Inr None
   \<and> get_weekly_forecast
        (broken_env (Response 200 (Some (PDict [(''list'', PList [PDict [(''dt'', PStr ''x'')]])]))))
        ''London'' = Inr []
   \<and> get_current_weather (demo_env insertion_slot []) ''Atlantis'' = Inr None
   \<and> get_weekly_forecast (demo_env insertion_slot []) ''Atlantis'' = Inr []"
proof -
  let ?m = "Response 200 (Some (PDict [(''name'', PStr ''London'')]))"
  let ?b = "Response 200 (Some (PDict [(''list'', PList [PDict [(''dt'', PStr ''x'')]])]))"
  have s1: "http_get (demo_env insertion_slot []) ''weather'' ''Atlantis'' =
      Response 404 (Some (PDict [(''cod'', PStr ''404'')])) \<and> (404::nat) \<noteq> 200"
    by (simp add: demo_defs)
  have s2: "http_get (demo_env insertion_slot []) ''forecast'' ''Atlantis'' =
      Response 404 (Some (PDict [(''cod'', PStr ''404'')])) \<and> (404::nat) \<noteq> 200"
    by (simp add: demo_defs)
  note cur = weather_functions_never_raise [THEN conjunct2, THEN conjunct2, THEN conjunct1,
      rule_format]
  note fc = weather_functions_never_raise [THEN conjunct2, THEN conjunct2, THEN conjunct2,
      THEN conjunct1, rule_format]
  note cur_status = weather_functions_never_raise [THEN conjunct2, THEN conjunct2,
      THEN conjunct2, THEN conjunct2, THEN conjunct1, rule_format]
  note fc_status = weather_functions_never_raise [THEN conjunct2, THEN conjunct2,
      THEN conjunct2, THEN conjunct2, THEN conjunct2, rule_format]
  have a: "get_current_weather (broken_env RequestFailed) ''London'' = Inr None"
    using request_failed_raises by (rule cur)
  have b: "get_current_weather (broken_env (Response 200 None)) ''London'' = Inr None"
    using not_json_raises by (rule cur)
  have c: "get_current_weather (broken_env ?m) ''London'' = Inr None"
    using missing_field_raises by (rule cur)
  have d: "get_weekly_forecast (broken_env ?b) ''London'' = Inr []"
    using bad_timestamp_raises by (rule fc)
  have f: "get_current_weather (demo_env insertion_slot []) ''Atlantis'' = Inr None"
    using s1 by (rule cur_status)
  have g: "get_weekly_forecast (demo_env insertion_slot []) ''Atlantis'' = Inr []"
    using s2 by (rule fc_status)
  show ?thesis by (intro conjI a b c d f g)
qed

text \<open>
  C3. Whatever the samples are, the aggregation returns at most 7 daily summaries, each
  with \<^verbatim>\<open>temp_max\<close> at least \<^verbatim>\<open>temp_min\<close>; so does \<^verbatim>\<open>get_weekly_forecast\<close> for every
  answer of the provider.
\<close>

theorem forecast_at_most_seven_days:
  "(\<forall>fl. aggregate e items = Inr fl \<longrightarrow>
        length fl \<le> 7 \<and> (\<forall>s\<in>set fl. temp_min s \<le> temp_max s))
   \<and> (\<exists>fl. get_weekly_forecast e c = Inr fl \<and> length fl \<le> 7 \<and>
          (\<forall>s\<in>set fl. temp_min s \<le> temp_max s))"
proof -
  have a: "\<forall>fl. aggregate e items = Inr fl \<longrightarrow>
        length fl \<le> 7 \<and> (\<forall>s\<in>set fl. temp_min s \<le> temp_max s)"
    using aggregate_length aggregate_temps by blast
  from get_weekly_forecast_cases [of e c]
  have b: "\<exists>fl. get_weekly_forecast e c = Inr fl \<and> length fl \<le> 7 \<and>
          (\<forall>s\<in>set fl. temp_min s \<le> temp_max s)"
  proof
    assume "get_weekly_forecast e c = Inr []"
    then show ?thesis by simp
  next
    assume "\<exists>items fl. aggregate e items = Inr fl \<and> get_weekly_forecast e c = Inr fl"
    then show ?thesis using aggregate_length aggregate_temps by blast
  qed
  from a b show ?thesis ..
qed

theorem forecast_at_most_seven_days_witness:
  "length week_items = 9
   \<and> (\<exists>fl. get_weekly_forecast (demo_env insertion_slot week_items) ''London'' = Inr fl
         \<and> length fl = 7
         \<and> map temp_min fl = [10, 5, 7, 8, 9, 3, 2]
         \<and> map temp_max fl = [15, 5, 7, 8, 9, 3, 2]
         \<and> list_all (\<lambda>s. temp_min s \<le> temp_max s) fl)"
proof -
  from forecast_at_most_seven_days [of "demo_env insertion_slot week_items" week_items "''London''"]
  obtain fl where a: "get_weekly_forecast (demo_env insertion_slot week_items) ''London'' = Inr fl"
    and b: "\<forall>s\<in>set fl. temp_min s \<le> temp_max s" by blast
  from b have c: "list_all (\<lambda>s. temp_min s \<le> temp_max s) fl" by (simp add: list_all_iff)
  have l: "length week_items = 9" by (simp add: week_items_def)
  from a have "fl = projr (get_weekly_forecast (demo_env insertion_slot week_items) ''London'')"
    by simp
  then have v: "length fl = 7 \<and> map temp_min fl = [10, 5, 7, 8, 9, 3, 2]
         \<and> map temp_max fl = [15, 5, 7, 8, 9, 3, 2]"
    by (simp add: week_forecast_value)
  show ?thesis
    apply (rule conjI [OF l], rule exI [of _ fl])
    using a c v apply simp
    done
qed

section \<open>Recording weather queries\<close>

text \<open>
  C5. When the provider answers the current-weather request with a status other than 200,
  or the request or the reading of the answer raises, \<^verbatim>\<open>get_current_weather\<close> returns
  \<^verbatim>\<open>None\<close>, and the dashboard request of a user of that city leaves the store (and the
  session) as it was: no weather query is recorded.
\<close>

theorem failed_fetch_is_absent_and_not_logged:
  assumes "http_get e ''weather'' c = RequestFailed
           \<or> (\<exists>status body. http_get e ''weather'' c = Response status body \<and> status \<noteq> 200)
           \<or> (\<exists>err. current_try e c = Inl err)"
  shows "get_current_weather e c = Inr None
         \<and> (\<forall>st i u. user_id (sess st) = Some i \<and> find (\<lambda>u. uid u = i) (users (db st)) = Some u
                \<and> city u = c \<longrightarrow>
              (\<exists>fc. dashboard e st = Inr (st, [], Render_dashboard u None fc)))"
proof -
  from assms have n: "get_current_weather e c = Inr None"
    by (auto simp: get_current_weather_def current_try_def is_Exception_all)
  have "\<exists>fc. dashboard e st = Inr (st, [], Render_dashboard u None fc)"
    if "user_id (sess st) = Some i" "find (\<lambda>u. uid u = i) (users (db st)) = Some u" "city u = c"
    for st i u
  proof -
    obtain fc where "get_weekly_forecast e c = Inr fc" using get_weekly_forecast_total by blast
    with that n show ?thesis
      by (simp add: dashboard_def login_required_def session_user_id_def and_then_def)
  qed
  with n show ?thesis by blast
qed

theorem failed_fetch_is_absent_and_not_logged_witness:
  "http_get (demo_env insertion_slot week_items) ''weather'' ''Atlantis'' =
      Response 404 (Some (PDict [(''cod'', PStr ''404'')]))
   \<and> get_current_weather (demo_env insertion_slot week_items) ''Atlantis'' = Inr None
   \<and> city bob = ''Atlantis''
   \<and> (\<exists>fc. dashboard (demo_env insertion_slot week_items) (logged_in bob) =
          Inr (logged_in bob, [], Render_dashboard bob None fc))"
proof -
  let ?e = "demo_env insertion_slot week_items"
  have r: "http_get ?e ''weather'' ''Atlantis'' = Response 404 (Some (PDict [(''cod'', PStr ''404'')]))"
    by (simp add: demo_defs)
  then have h: "http_get ?e ''weather'' ''Atlantis'' = RequestFailed
           \<or> (\<exists>status body. http_get ?e ''weather'' ''Atlantis'' = Response status body \<and> status \<noteq> 200)
           \<or> (\<exists>err. current_try ?e ''Atlantis'' = Inl err)"
    by simp
  have s: "user_id (sess (logged_in bob)) = Some 2 \<and>
      find (\<lambda>u. uid u = 2) (users (db (logged_in bob))) = Some bob \<and> city bob = ''Atlantis''"
    by (simp add: logged_in_def alice_def bob_def)
  note t = failed_fetch_is_absent_and_not_logged [OF h]
  from t have a: "get_current_weather ?e ''Atlantis'' = Inr None" ..
  from t [THEN conjunct2, rule_format, OF s]
  have b: "\<exists>fc. dashboard ?e (logged_in bob) = Inr (logged_in bob, [], Render_dashboard bob None fc)" .
  from r a s b show ?thesis by blast
qed

text \<open>
  C1, as the claim states it, fails for the API lookup: \<^verbatim>\<open>/api/weather/London\<close> fetches the
  current weather successfully and the store of weather queries stays empty.
\<close>

theorem api_lookup_not_logged_counterexample:
  "\<exists>w fc. get_current_weather (demo_env insertion_slot week_items) ''London'' = Inr (Some w)
     \<and> api_weather (demo_env insertion_slot week_items) (logged_in alice) ''London'' =
          Inr (logged_in alice, [], Jsonify (Some w) fc)
     \<and> weather_queries (db (logged_in alice)) = []"
proof -
  obtain fc where "get_weekly_forecast (demo_env insertion_slot week_items) ''London'' = Inr fc"
    using get_weekly_forecast_total by blast
  then show ?thesis
    by (simp add: demo_current_value api_weather_def login_required_def and_then_def logged_in_def)
qed

lemmas store_defs = storable_def query_ints_fit_def snapshot_ints_fit_def summary_ints_fit_def
  int64_def insert_weather_query_def

lemma huge_current_value:
  "get_current_weather huge_humidity_env ''London'' =
   Inr (Some
       \<lparr>cw_city = PStr ''London'', cw_country = PStr ''GB'',
          cw_temperature = 12, cw_feels_like = 12,
          cw_description = ''Light rain'', cw_icon = PStr ''10d'',
          cw_humidity = PInt 9223372036854775808, cw_pressure = PInt 1012,
          cw_wind_speed = PFloat (9 / 2), cw_timestamp = 1704100000\<rparr>)"
  by (simp add: weather_defs demo_defs huge_humidity_env_def)

text \<open>
  C1, amended. A dashboard request whose current-weather fetch succeeds and whose record
  the store takes (every integer of the snapshot and of the forecast fits into 8 bytes, and
  the driver and the server accept the document) appends one weather query with the user,
  the city, the time, the snapshot and the forecast. When the store does not take the
  record, the request ends in an exception and nothing is stored. An API lookup never
  changes the store.
\<close>

theorem dashboard_logs_successful_fetch:
  "(\<forall>i u w fc.
      user_id (sess st) = Some i \<and> find (\<lambda>u. uid u = i) (users (db st)) = Some u
      \<and> get_current_weather e (city u) = Inr (Some w)
      \<and> get_weekly_forecast e (city u) = Inr fc \<longrightarrow>
      (storable e \<lparr>wq_user_id = i, wq_city = city u, query_time = now e,
                   weather_data = w, forecast = fc\<rparr> \<longrightarrow>
         dashboard e st =
           Inr (st\<lparr>db := (db st)\<lparr>weather_queries := weather_queries (db st) @
                  [\<lparr>wq_user_id = i, wq_city = city u, query_time = now e,
                    weather_data = w, forecast = fc\<rparr>]\<rparr>\<rparr>,
                [], Render_dashboard u (Some w) fc))
      \<and> (\<not> storable e \<lparr>wq_user_id = i, wq_city = city u, query_time = now e,
                      weather_data = w, forecast = fc\<rparr> \<longrightarrow>
           (\<exists>err. dashboard e st = Inl err)))
   \<and> (\<forall>c st' fl pg. api_weather e st c = Inr (st', fl, pg) \<longrightarrow> st' = st)"
proof -
  have a: "dashboard e st =
           Inr (st\<lparr>db := (db st)\<lparr>weather_queries := weather_queries (db st) @
                  [\<lparr>wq_user_id = i, wq_city = city u, query_time = now e,
                    weather_data = w, forecast = fc\<rparr>]\<rparr>\<rparr>,
                [], Render_dashboard u (Some w) fc)"
    if "user_id (sess st) = Some i" "find (\<lambda>u. uid u = i) (users (db st)) = Some u"
       "get_current_weather e (city u) = Inr (Some w)" "get_weekly_forecast e (city u) = Inr fc"
       "storable e \<lparr>wq_user_id = i, wq_city = city u, query_time = now e,
                   weather_data = w, forecast = fc\<rparr>" for i u w fc
    using that
    by (simp add: dashboard_def login_required_def session_user_id_def and_then_def
        insert_weather_query_def storable_def)
  have b: "\<exists>err. dashboard e st = Inl err"
    if "user_id (sess st) = Some i" "find (\<lambda>u. uid u = i) (users (db st)) = Some u"
       "get_current_weather e (city u) = Inr (Some w)" "get_weekly_forecast e (city u) = Inr fc"
       "\<not> storable e \<lparr>wq_user_id = i, wq_city = city u, query_time = now e,
                   weather_data = w, forecast = fc\<rparr>" for i u w fc
    using that
    by (auto simp: dashboard_def login_required_def session_user_id_def and_then_def
        insert_weather_query_def storable_def)
  have c: "st' = st" if "api_weather e st c = Inr (st', fl, pg)" for c st' fl pg
    using that by (auto simp: api_weather_def login_required_def and_then_Inr split: if_splits)
  from a b c show ?thesis by blast
qed

theorem dashboard_logs_successful_fetch_witness:
  "(\<exists>w fc st'.
      get_current_weather (demo_env insertion_slot week_items) ''London'' = Inr (Some w)
      \<and> get_weekly_forecast (demo_env insertion_slot week_items) ''London'' = Inr fc
      \<and> storable (demo_env insertion_slot week_items)
           \<lparr>wq_user_id = 1, wq_city = ''London'', query_time = 1704100000,
             weather_data = w, forecast = fc\<rparr>
      \<and> dashboard (demo_env insertion_slot week_items) (logged_in alice) =
           Inr (st', [], Render_dashboard alice (Some w) fc)
      \<and> weather_queries (db st') =
           [\<lparr>wq_user_id = 1, wq_city = ''London'', query_time = 1704100000,
             weather_data = w, forecast = fc\<rparr>]
      \<and> length fc = 7)
   \<and> (\<exists>w fc err.
      get_current_weather huge_humidity_env ''London'' = Inr (Some w)
      \<and> cw_humidity w = PInt 9223372036854775808
      \<and> get_weekly_forecast huge_humidity_env ''London'' = Inr fc
      \<and> \<not> storable huge_humidity_env
           \<lparr>wq_user_id = 1, wq_city = ''London'', query_time = 1704100000,
             weather_data = w, forecast = fc\<rparr>
      \<and> dashboard huge_humidity_env (logged_in alice) = Inl err)"
proof -
  let ?e = "demo_env insertion_slot week_items"
  let ?h = huge_humidity_env
  have u: "user_id (sess (logged_in alice)) = Some 1"
    "find (\<lambda>u. uid u = 1) (users (db (logged_in alice))) = Some alice"
    "city alice = ''London''"
    by (simp_all add: logged_in_def alice_def)
  have q: "weather_queries (db (logged_in alice)) = []" by (simp add: logged_in_def)
  note step = dashboard_logs_successful_fetch [of "logged_in alice", THEN conjunct1, rule_format]
  obtain w where w: "get_current_weather ?e ''London'' = Inr (Some w)"
    and wv: "w = \<lparr>cw_city = PStr ''London'', cw_country = PStr ''GB'',
          cw_temperature = 12, cw_feels_like = 12,
          cw_description = ''Light rain'', cw_icon = PStr ''10d'',
          cw_humidity = PInt 81, cw_pressure = PInt 1012,
          cw_wind_speed = PFloat (9 / 2), cw_timestamp = 1704100000\<rparr>"
    using demo_current_value by blast
  obtain fc where fc: "get_weekly_forecast ?e ''London'' = Inr fc"
    using get_weekly_forecast_total by blast
  then have fcv: "fc = projr (get_weekly_forecast ?e ''London'')" by simp
  have l: "length fc = 7" unfolding fcv by (simp add: week_forecast_value)
  have n: "now ?e = 1704100000" by (simp add: demo_env_def)
  have s: "storable ?e \<lparr>wq_user_id = 1, wq_city = ''London'', query_time = 1704100000,
             weather_data = w, forecast = fc\<rparr>"
  proof -
    have "query_ints_fit \<lparr>wq_user_id = 1, wq_city = ''London'', query_time = 1704100000,
             weather_data = w, forecast = fc\<rparr>"
      unfolding fcv wv by (simp add: week_forecast_value store_defs)
    moreover have "store_accepts ?e q" for q by (simp add: demo_env_def)
    ultimately show ?thesis by (simp add: storable_def)
  qed
  have pre: "user_id (sess (logged_in alice)) = Some 1 \<and>
      find (\<lambda>u. uid u = 1) (users (db (logged_in alice))) = Some alice \<and>
      get_current_weather ?e (city alice) = Inr (Some w) \<and>
      get_weekly_forecast ?e (city alice) = Inr fc"
    using u w fc by simp
  have d: "dashboard ?e (logged_in alice) =
      Inr ((logged_in alice)\<lparr>db := (db (logged_in alice))\<lparr>weather_queries :=
             weather_queries (db (logged_in alice)) @
             [\<lparr>wq_user_id = 1, wq_city = city alice, query_time = now ?e,
               weather_data = w, forecast = fc\<rparr>]\<rparr>\<rparr>,
           [], Render_dashboard alice (Some w) fc)"
    using step [OF pre, THEN conjunct1] s by (simp add: u n)
  have first: "\<exists>w fc st'.
      get_current_weather ?e ''London'' = Inr (Some w)
      \<and> get_weekly_forecast ?e ''London'' = Inr fc
      \<and> storable ?e
           \<lparr>wq_user_id = 1, wq_city = ''London'', query_time = 1704100000,
             weather_data = w, forecast = fc\<rparr>
      \<and> dashboard ?e (logged_in alice) = Inr (st', [], Render_dashboard alice (Some w) fc)
      \<and> weather_queries (db st') =
           [\<lparr>wq_user_id = 1, wq_city = ''London'', query_time = 1704100000,
             weather_data = w, forecast = fc\<rparr>]
      \<and> length fc = 7"
    apply (rule exI [of _ w], rule exI [of _ fc], rule exI)
    apply (rule conjI [OF w], rule conjI [OF fc], rule conjI [OF s], rule conjI [OF d])
    apply (simp add: l n q u)
    done
  obtain w' where w': "get_current_weather ?h ''London'' = Inr (Some w')"
    and hv: "cw_humidity w' = PInt 9223372036854775808"
    using huge_current_value by force
  obtain fc' where fc': "get_weekly_forecast ?h ''London'' = Inr fc'"
    using get_weekly_forecast_total by blast
  have n': "now ?h = 1704100000" by (simp add: huge_humidity_env_def demo_env_def)
  have ns: "\<not> storable ?h \<lparr>wq_user_id = 1, wq_city = ''London'', query_time = 1704100000,
             weather_data = w', forecast = fc'\<rparr>"
    using hv by (simp add: store_defs)
  have pre': "user_id (sess (logged_in alice)) = Some 1 \<and>
      find (\<lambda>u. uid u = 1) (users (db (logged_in alice))) = Some alice \<and>
      get_current_weather ?h (city alice) = Inr (Some w') \<and>
      get_weekly_forecast ?h (city alice) = Inr fc'"
    using u w' fc' by simp
  have "\<exists>err. dashboard ?h (logged_in alice) = Inl err"
    using step [OF pre', THEN conjunct2] ns by (simp add: u n')
  then obtain err where e: "dashboard ?h (logged_in alice) = Inl err" ..
  have second: "\<exists>w fc err.
      get_current_weather ?h ''London'' = Inr (Some w)
      \<and> cw_humidity w = PInt 9223372036854775808
      \<and> get_weekly_forecast ?h ''London'' = Inr fc
      \<and> \<not> storable ?h
           \<lparr>wq_user_id = 1, wq_city = ''London'', query_time = 1704100000,
             weather_data = w, forecast = fc\<rparr>
      \<and> dashboard ?h (logged_in alice) = Inl err"
    apply (rule exI [of _ w'], rule exI [of _ fc'], rule exI [of _ err])
    apply (intro conjI w' hv fc' ns e)
    done
  from first second show ?thesis ..
qed

section \<open>The grouping loop and the summaries\<close>

lemma set_first_seen: "set (first_seen xs) = set xs"
  by (induction xs) auto

lemma distinct_first_seen: "distinct (first_seen xs)"
  by (induction xs) (auto simp: set_first_seen)

lemma first_seen_snoc:
  "first_seen (xs @ [x]) = (if x \<in> set xs then first_seen xs else first_seen xs @ [x])"
  by (induction xs) auto

lemma add_item_reads:
  assumes "add_item e df item = Inr df'"
  shows "\<exists>s ic. read_sample e item = Inr s \<and>
           df' = update_day (s_date s)
                   (append_sample (s_temp s) (s_description s) (s_humidity s) (s_wind s))
                   (if s_date s \<in> set (map fst df) then df
                    else df @ [(s_date s, new_day e (s_date s) ic)])"
proof -
  from assms obtain dt d df1 m t w w0 ds m2 h wi sp where
    dt: "getitem item ''dt'' = Inr dt" and d: "fromtimestamp_date e dt = Inr d"
    and df1: "(if d \<in> set (map fst df) then Inr df
        else
          and_then (getitem item ''weather'') (\<lambda>w.
          and_then (getitem0 w) (\<lambda>w0.
          and_then (getitem w0 ''icon'') (\<lambda>ic.
          Inr (df @ [(d, new_day e d ic)]))))) = Inr df1"
    and m: "getitem item ''main'' = Inr m" and t: "getitem m ''temp'' = Inr t"
    and w: "getitem item ''weather'' = Inr w" and w0: "getitem0 w = Inr w0"
    and ds: "getitem w0 ''description'' = Inr ds"
    and m2: "getitem item ''main'' = Inr m2" and h: "getitem m2 ''humidity'' = Inr h"
    and wi: "getitem item ''wind'' = Inr wi" and sp: "getitem wi ''speed'' = Inr sp"
    and df': "df' = update_day d (append_sample t ds h sp) df1"
    unfolding add_item_def and_then_Inr by blast
  from m m2 have mm: "m2 = m" by simp
  let ?s = "\<lparr>s_date = d, s_temp = t, s_description = ds, s_humidity = h, s_wind = sp\<rparr>"
  have r: "read_sample e item = Inr ?s"
    using dt d m t w w0 ds h wi sp mm by (simp add: read_sample_def and_then_def)
  have "\<exists>ic. df1 = (if d \<in> set (map fst df) then df else df @ [(d, new_day e d ic)])"
  proof (cases "d \<in> set (map fst df)")
    case True
    with df1 show ?thesis by simp
  next
    case False
    with df1 show ?thesis by (auto simp: and_then_Inr)
  qed
  then obtain ic where "df1 = (if d \<in> set (map fst df) then df else df @ [(d, new_day e d ic)])" ..
  with df' have "df' = update_day (s_date ?s)
                   (append_sample (s_temp ?s) (s_description ?s) (s_humidity ?s) (s_wind ?s))
                   (if s_date ?s \<in> set (map fst df) then df
                    else df @ [(s_date ?s, new_day e (s_date ?s) ic)])" by simp
  with r show ?thesis by blast
qed

lemma day_agrees_new:
  "d \<notin> set (map s_date ss) \<Longrightarrow> day_agrees e ss (d, new_day e d ic)"
  by (auto simp: day_agrees_def new_day_def samples_of_day_def filter_empty_conv)

lemma day_agrees_append:
  "day_agrees e ss kv \<Longrightarrow>
   day_agrees e (ss @ [s])
     (if fst kv = s_date s
      then (fst kv, append_sample (s_temp s) (s_description s) (s_humidity s) (s_wind s) (snd kv))
      else kv)"
  by (auto simp: day_agrees_def append_sample_def samples_of_day_def)

lemma map_fst_update_day: "map fst (update_day d f df) = map fst df"
  by (simp add: update_day_def comp_def)

lemma grouped_step:
  assumes g: "grouped e ss df" and a: "add_item e df item = Inr df'"
  shows "\<exists>s. read_sample e item = Inr s \<and> grouped e (ss @ [s]) df'"
proof -
  from add_item_reads [OF a] obtain s ic where r: "read_sample e item = Inr s"
    and df': "df' = update_day (s_date s)
                   (append_sample (s_temp s) (s_description s) (s_humidity s) (s_wind s))
                   (if s_date s \<in> set (map fst df) then df
                    else df @ [(s_date s, new_day e (s_date s) ic)])" by blast
  let ?df1 = "if s_date s \<in> set (map fst df) then df
              else df @ [(s_date s, new_day e (s_date s) ic)]"
  from g have keys: "map fst df = first_seen (map s_date ss)"
    and ag: "list_all (day_agrees e ss) df" by (simp_all add: grouped_def)
  from keys have ks: "set (map fst df) = set (map s_date ss)"
    by (simp add: set_first_seen)
  have k1: "map fst ?df1 = first_seen (map s_date (ss @ [s]))"
    using keys ks by (simp add: first_seen_snoc)
  have a1: "list_all (day_agrees e ss) ?df1"
    using ag ks day_agrees_new [of "s_date s" ss e ic] by simp
  have a2: "list_all (day_agrees e (ss @ [s])) df'"
    unfolding list_all_iff
  proof
    fix kv' assume "kv' \<in> set df'"
    then have "kv' \<in> (\<lambda>kv. if fst kv = s_date s
         then (fst kv, append_sample (s_temp s) (s_description s) (s_humidity s) (s_wind s) (snd kv))
         else kv) ` set ?df1"
      unfolding df' update_day_def by simp
    then obtain kv where m: "kv \<in> set ?df1"
      and eq: "kv' = (if fst kv = s_date s
         then (fst kv, append_sample (s_temp s) (s_description s) (s_humidity s) (s_wind s) (snd kv))
         else kv)"
      by (rule imageE)
    from a1 m have "day_agrees e ss kv" by (simp add: list_all_iff)
    from day_agrees_append [OF this, of s] eq show "day_agrees e (ss @ [s]) kv'" by simp
  qed
  have "map fst df' = first_seen (map s_date (ss @ [s]))"
    unfolding df' using k1 by (simp only: map_fst_update_day)
  with a2 r show ?thesis by (auto simp: grouped_def)
qed

lemma grouped_items:
  "grouped e ss0 df \<Longrightarrow> group_items e df items = Inr df' \<Longrightarrow>
   \<exists>ss. read_samples e items = Inr ss \<and> grouped e (ss0 @ ss) df'"
proof (induction items arbitrary: ss0 df)
  case Nil
  then show ?case by simp
next
  case (Cons item items)
  from Cons.prems(2) obtain df1 where a: "add_item e df item = Inr df1"
    and b: "group_items e df1 items = Inr df'"
    by (auto split: sum.splits)
  from grouped_step [OF Cons.prems(1) a] obtain s where r: "read_sample e item = Inr s"
    and g: "grouped e (ss0 @ [s]) df1" by blast
  from Cons.IH [OF g b] obtain ss where "read_samples e items = Inr ss"
    and "grouped e ((ss0 @ [s]) @ ss) df'" by blast
  with r show ?case by auto
qed

lemma aggregate_days:
  assumes "aggregate e items = Inr fl"
  shows "\<exists>ss. read_samples e items = Inr ss \<and>
           list_all2 (\<lambda>d s. \<exists>dd. day_agrees e ss (d, dd) \<and> summarise e dd = Inr s)
             (take 7 (first_seen (map s_date ss))) fl"
proof -
  from assms obtain df where gi: "group_items e [] items = Inr df"
    and sa: "summarise_all e (take 7 (map snd df)) = Inr fl"
    by (auto simp: aggregate_def and_then_Inr)
  have "grouped e [] []" by (simp add: grouped_def)
  from grouped_items [OF this gi] obtain ss where r: "read_samples e items = Inr ss"
    and g: "grouped e ss df" by auto
  from g have keys: "map fst df = first_seen (map s_date ss)"
    and ag: "\<forall>kv\<in>set df. day_agrees e ss kv" by (simp_all add: grouped_def list_all_iff)
  from summarise_all_rel [OF sa]
  have l2: "list_all2 (\<lambda>dd s. summarise e dd = Inr s) (map snd (take 7 df)) fl"
    by (simp add: take_map)
  have "list_all2 (\<lambda>d s. \<exists>dd. day_agrees e ss (d, dd) \<and> summarise e dd = Inr s)
             (map fst (take 7 df)) fl"
    unfolding list_all2_conv_all_nth
  proof (intro conjI allI impI)
    show "length (map fst (take 7 df)) = length fl"
      using l2 by (auto dest: list_all2_lengthD)
  next
    fix i assume i: "i < length (map fst (take 7 df))"
    then have m: "take 7 df ! i \<in> set df"
      by (metis in_set_takeD length_map nth_mem)
    from i have i': "i < length (map snd (take 7 df))" by simp
    from list_all2_nthD [OF l2 i'] i have "summarise e (snd (take 7 df ! i)) = Inr (fl ! i)"
      by simp
    moreover from ag m have "day_agrees e ss (fst (take 7 df ! i), snd (take 7 df ! i))"
      by simp
    moreover from i have "map fst (take 7 df) ! i = fst (take 7 df ! i)" by simp
    ultimately show "\<exists>dd. day_agrees e ss (map fst (take 7 df) ! i, dd) \<and>
         summarise e dd = Inr (fl ! i)"
      by metis
  qed
  moreover have "map fst (take 7 df) = take 7 (first_seen (map s_date ss))"
    unfolding keys [symmetric] by (simp add: take_map)
  ultimately show ?thesis using r by simp
qed

lemma find_Some_holds: "find P xs = Some x \<Longrightarrow> P x \<and> x \<in> set xs"
  by (induction xs) (auto split: if_splits)

lemma fold_max_key_split:
  fixes f :: "'a \<Rightarrow> nat"
  assumes "\<forall>x\<in>set P. f x < f b" and "\<forall>x\<in>set Q. f x \<le> f b"
  shows "\<exists>pre post. P @ b # Q @ xs = pre @ fold (\<lambda>y best. if f best < f y then y else best) xs b # post
           \<and> (\<forall>x\<in>set pre. f x < f (fold (\<lambda>y best. if f best < f y then y else best) xs b))
           \<and> (\<forall>x\<in>set post. f x \<le> f (fold (\<lambda>y best. if f best < f y then y else best) xs b))"
  using assms
proof (induction xs arbitrary: P b Q)
  case Nil
  then show ?case by auto
next
  case (Cons y ys)
  show ?case
  proof (cases "f b < f y")
    case True
    have p: "\<forall>x\<in>set (P @ b # Q). f x < f y"
      using Cons.prems True by fastforce
    have q: "\<forall>x\<in>set []. f x \<le> f y" by simp
    from Cons.IH [OF p q] True show ?thesis by simp
  next
    case False
    have q: "\<forall>x\<in>set (Q @ [y]). f x \<le> f b" using Cons.prems False by auto
    from Cons.IH [OF Cons.prems(1) q] False show ?thesis by simp
  qed
qed

lemma find_first_match:
  "\<forall>x\<in>set pre. \<not> P x \<Longrightarrow> P r \<Longrightarrow> find P (pre @ r # post) = Some r"
  by (induction pre) auto

lemma py_max_key_first_max:
  assumes "py_max_key f xs = Inr r"
  shows "find (\<lambda>x. \<forall>y\<in>set xs. f y \<le> f x) xs = Some r"
proof (cases xs)
  case Nil
  with assms show ?thesis by simp
next
  case (Cons b ys)
  with assms have r: "r = fold (\<lambda>y best. if f best < f y then y else best) ys b" by simp
  from fold_max_key_split [of "[]" f b "[]" ys] r
  obtain pre post where xs: "xs = pre @ r # post"
    and pre: "\<forall>x\<in>set pre. f x < f r" and post: "\<forall>x\<in>set post. f x \<le> f r"
    using Cons by auto
  have "\<forall>x\<in>set pre. \<not> (\<forall>y\<in>set xs. f y \<le> f x)"
    using pre xs by (auto simp: not_le)
  moreover have "\<forall>y\<in>set xs. f y \<le> f r"
    using pre post xs by (auto intro: less_imp_le)
  ultimately show ?thesis
    unfolding xs by (rule find_first_match)
qed

lemma py_count_key: "py_key x = py_key y \<Longrightarrow> py_count ds x = py_count ds y"
  by (simp add: py_count_def)

lemma set_py_distinct: "set (py_distinct xs) \<subseteq> set xs"
  by (induction xs) auto

lemma py_distinct_keeps_one:
  "x \<in> set xs \<Longrightarrow> \<exists>y\<in>set (py_distinct xs). py_key y = py_key x"
proof (induction xs)
  case Nil
  then show ?case by simp
next
  case (Cons a xs)
  show ?case
  proof (cases "py_key x = py_key a")
    case True
    then show ?thesis by auto
  next
    case False
    with Cons.prems have "x \<in> set xs" by auto
    from Cons.IH [OF this] obtain y where "y \<in> set (py_distinct xs)" "py_key y = py_key x"
      by blast
    with False show ?thesis by auto
  qed
qed

lemma most_common_set_order:
  assumes "most_common e ds = Inr r"
  shows "set_order_mode e ds = Some r"
proof -
  let ?xs = "sort_key (\<lambda>x. set_slot e (py_key x)) (py_distinct ds)"
  from assms have m: "py_max_key (py_count ds) ?xs = Inr r"
    by (auto simp: most_common_def py_set_def and_then_Inr split: if_splits)
  have "(\<forall>y\<in>set ?xs. py_count ds y \<le> py_count ds x) =
        list_all (\<lambda>y. py_count ds y \<le> py_count ds x) ds" for x
  proof
    assume a: "\<forall>y\<in>set ?xs. py_count ds y \<le> py_count ds x"
    show "list_all (\<lambda>y. py_count ds y \<le> py_count ds x) ds"
      unfolding list_all_iff
    proof
      fix y assume "y \<in> set ds"
      from py_distinct_keeps_one [OF this] obtain y' where
        "y' \<in> set (py_distinct ds)" "py_key y' = py_key y" by blast
      with a have "py_count ds y' \<le> py_count ds x" by simp
      with py_count_key [OF \<open>py_key y' = py_key y\<close>, of ds]
      show "py_count ds y \<le> py_count ds x" by simp
    qed
  next
    assume "list_all (\<lambda>y. py_count ds y \<le> py_count ds x) ds"
    then show "\<forall>y\<in>set ?xs. py_count ds y \<le> py_count ds x"
      using set_py_distinct [of ds] by (auto simp: list_all_iff)
  qed
  then have "(\<lambda>x. \<forall>y\<in>set ?xs. py_count ds y \<le> py_count ds x) =
        (\<lambda>x. list_all (\<lambda>y. py_count ds y \<le> py_count ds x) ds)" by (rule ext)
  with py_max_key_first_max [OF m] show ?thesis
    by (simp add: set_order_mode_def)
qed

lemma summarise_fields:
  assumes "summarise e dd = Inr s"
  shows "date s = dd_date dd"
    and "most_common e (dd_descriptions dd) = Inr (description s)"
  using assms
  by (auto simp: summarise_def and_then_Inr)

lemma aggregate_modes:
  assumes "aggregate e items = Inr fl"
  shows "\<exists>ss. read_samples e items = Inr ss
           \<and> list_all2
                (\<lambda>d s. set_order_mode e (map s_description (samples_of_day d ss)) = Some (description s))
                (take 7 (first_seen (map s_date ss))) fl"
proof -
  from aggregate_days [OF assms] obtain ss where r: "read_samples e items = Inr ss"
    and l: "list_all2 (\<lambda>d s. \<exists>dd. day_agrees e ss (d, dd) \<and> summarise e dd = Inr s)
             (take 7 (first_seen (map s_date ss))) fl" by blast
  from l have "list_all2
                (\<lambda>d s. set_order_mode e (map s_description (samples_of_day d ss)) = Some (description s))
                (take 7 (first_seen (map s_date ss))) fl"
    by (rule list_all2_mono)
       (auto simp: day_agrees_def dest!: summarise_fields(2) most_common_set_order)
  with r show ?thesis by blast
qed

section \<open>The aggregation on the example data\<close>

lemmas sample_defs = read_sample_def samples_of_day_def set_order_mode_def earliest_mode_def

lemma tie_samples_value:
  "read_samples (demo_env slot its) tie_items =
   Inr [\<lparr>s_date = 19723, s_temp = PFloat 10, s_description = PStr ''cloudy'',
         s_humidity = PInt 80, s_wind = PFloat (5 / 2)\<rparr>,
        \<lparr>s_date = 19723, s_temp = PFloat 15, s_description = PStr ''cloudy'',
         s_humidity = PInt 71, s_wind = PFloat (7 / 2)\<rparr>,
        \<lparr>s_date = 19723, s_temp = PFloat 12, s_description = PStr ''rain'',
         s_humidity = PInt 90, s_wind = PFloat (5 / 2)\<rparr>,
        \<lparr>s_date = 19723, s_temp = PFloat 11, s_description = PStr ''rain'',
         s_humidity = PInt 85, s_wind = PFloat (7 / 2)\<rparr>]"
  by (simp add: sample_defs weather_defs demo_defs)

lemma week_dates_value:
  "map_sum id (map s_date) (read_samples (demo_env slot its) week_items) =
   Inr [19723, 19724, 19723, 19725, 19726, 19727, 19728, 19729, 19730]"
  by (simp add: sample_defs weather_defs demo_defs)

lemma tie_aggregate_insertion:
  "aggregate (demo_env insertion_slot its) tie_items =
   Inr [\<lparr>date = ''Monday, January 01'', temp_max = 15, temp_min = 10,
         description = PStr ''cloudy'', humidity = 82, wind_speed = Finite 3,
         icon = PStr ''04d''\<rparr>]"
  by (simp add: weather_defs demo_defs)

lemma tie_aggregate_rain_first:
  "aggregate (demo_env rain_first_slot its) tie_items =
   Inr [\<lparr>date = ''Monday, January 01'', temp_max = 15, temp_min = 10,
         description = PStr ''rain'', humidity = 82, wind_speed = Finite 3,
         icon = PStr ''04d''\<rparr>]"
  by (simp add: weather_defs demo_defs)

lemma week_aggregate_dates:
  "map_sum id (map date) (aggregate (demo_env insertion_slot its) week_items) =
   Inr [''Monday, January 01'', ''Tuesday, January 02'', ''Wednesday, January 03'',
        ''Thursday, January 04'', ''Friday, January 05'', ''Saturday, January 06'',
        ''Sunday, January 07'']"
  by (simp add: weather_defs demo_defs)

section \<open>The claims about the forecast aggregator\<close>

lemma sum_result_exists: "map_sum f g x = Inr v \<Longrightarrow> \<exists>y. x = Inr y \<and> g y = v"
  by (cases x) auto

text \<open>
  C4. Whenever the aggregation of a sequence of samples returns (no exception is raised on
  the way), it returns one summary per calendar date, in the order in which the dates
  first occur in the input, cut after the first 7 distinct dates; each summary is computed
  from the entry that holds exactly the samples of its date, in input order.
\<close>

theorem forecast_days_in_first_seen_order:
  assumes "aggregate e items = Inr fl"
  shows "\<exists>ss. read_samples e items = Inr ss
           \<and> map date fl = map (date_label e) (take 7 (first_seen (map s_date ss)))
           \<and> list_all2 (\<lambda>d s. \<exists>dd. day_agrees e ss (d, dd) \<and> summarise e dd = Inr s)
                (take 7 (first_seen (map s_date ss))) fl"
proof -
  from aggregate_days [OF assms] obtain ss where r: "read_samples e items = Inr ss"
    and l: "list_all2 (\<lambda>d s. \<exists>dd. day_agrees e ss (d, dd) \<and> summarise e dd = Inr s)
             (take 7 (first_seen (map s_date ss))) fl" by blast
  from l have "list_all2 (\<lambda>d s. date s = date_label e d) (take 7 (first_seen (map s_date ss))) fl"
    by (rule list_all2_mono) (auto simp: day_agrees_def dest: summarise_fields(1))
  then have "map date fl = map (date_label e) (take 7 (first_seen (map s_date ss)))"
    by (induction rule: list_all2_induct) auto
  with r l show ?thesis by blast
qed

theorem forecast_days_in_first_seen_order_witness:
  "\<exists>fl ss. aggregate (demo_env insertion_slot []) week_items = Inr fl
      \<and> read_samples (demo_env insertion_slot []) week_items = Inr ss
      \<and> map s_date ss = [19723, 19724, 19723, 19725, 19726, 19727, 19728, 19729, 19730]
      \<and> take 7 (first_seen (map s_date ss)) = [19723, 19724, 19725, 19726, 19727, 19728, 19729]
      \<and> map date fl = map (date_label (demo_env insertion_slot [])) (take 7 (first_seen (map s_date ss)))
      \<and> map date fl =
          [''Monday, January 01'', ''Tuesday, January 02'', ''Wednesday, January 03'',
           ''Thursday, January 04'', ''Friday, January 05'', ''Saturday, January 06'',
           ''Sunday, January 07'']"
proof -
  let ?e = "demo_env insertion_slot []"
  from sum_result_exists [OF week_aggregate_dates [of "[]"]]
  obtain fl where a: "aggregate ?e week_items = Inr fl"
    and l: "map date fl =
          [''Monday, January 01'', ''Tuesday, January 02'', ''Wednesday, January 03'',
           ''Thursday, January 04'', ''Friday, January 05'', ''Saturday, January 06'',
           ''Sunday, January 07'']"
    by (elim exE conjE) (rule that, assumption+)
  from forecast_days_in_first_seen_order [OF a] obtain ss
    where r: "read_samples ?e week_items = Inr ss"
      and m: "map date fl = map (date_label ?e) (take 7 (first_seen (map s_date ss)))"
    by (elim exE conjE) (rule that, assumption+)
  from week_dates_value [of insertion_slot "[]"] r
  have d: "map s_date ss = [19723, 19724, 19723, 19725, 19726, 19727, 19728, 19729, 19730]"
    by simp
  then have t: "take 7 (first_seen (map s_date ss)) = [19723, 19724, 19725, 19726, 19727, 19728, 19729]"
    by simp
  show ?thesis
    apply (rule exI [of _ fl], rule exI [of _ ss])
    apply (intro conjI a r d t m l)
    done
qed

text \<open>
  C2, as the claim states it, fails on a tie. With four samples of one day described as
  cloudy, cloudy, rain, rain, and a set that yields \<^verbatim>\<open>rain\<close> before \<^verbatim>\<open>cloudy\<close>, the
  summary says \<^verbatim>\<open>rain\<close>, while the earliest of the most frequent descriptions is
  \<^verbatim>\<open>cloudy\<close>.
\<close>

theorem description_tie_counterexample:
  "get_weekly_forecast (demo_env rain_first_slot tie_items) ''London'' =
     Inr [\<lparr>date = ''Monday, January 01'', temp_max = 15, temp_min = 10,
           description = PStr ''rain'', humidity = 82, wind_speed = Finite 3,
           icon = PStr ''04d''\<rparr>]
   \<and> map_sum id (map s_description) (read_samples (demo_env rain_first_slot tie_items) tie_items) =
       Inr [PStr ''cloudy'', PStr ''cloudy'', PStr ''rain'', PStr ''rain'']
   \<and> earliest_mode [PStr ''cloudy'', PStr ''cloudy'', PStr ''rain'', PStr ''rain''] =
       Some (PStr ''cloudy'')"
  by (simp add: sample_defs weather_defs demo_defs)

text \<open>
  C2, amended. Whenever the aggregation returns, the description of every summary is one
  of the descriptions of the samples of that date whose count is the highest; of the
  descriptions with that count it is the one that comes first in the iteration order of
  the set of the descriptions, which the order of the samples does not determine.
\<close>

theorem description_is_most_frequent_first_in_set_order:
  assumes "aggregate e items = Inr fl"
  shows "\<exists>ss. read_samples e items = Inr ss
           \<and> list_all2
                (\<lambda>d s.
                   description s \<in> set (map s_description (samples_of_day d ss))
                   \<and> list_all
                       (\<lambda>y. py_count (map s_description (samples_of_day d ss)) y
                            \<le> py_count (map s_description (samples_of_day d ss)) (description s))
                       (map s_description (samples_of_day d ss))
                   \<and> set_order_mode e (map s_description (samples_of_day d ss)) =
                       Some (description s))
                (take 7 (first_seen (map s_date ss))) fl"
proof -
  from aggregate_modes [OF assms] obtain ss where r: "read_samples e items = Inr ss"
    and l: "list_all2
                (\<lambda>d s. set_order_mode e (map s_description (samples_of_day d ss)) = Some (description s))
                (take 7 (first_seen (map s_date ss))) fl" by blast
  have step: "r \<in> set ds \<and> list_all (\<lambda>y. py_count ds y \<le> py_count ds r) ds
              \<and> set_order_mode e ds = Some r"
    if "set_order_mode e ds = Some r" for ds r
    using find_Some_holds [OF that [unfolded set_order_mode_def]] that set_py_distinct [of ds]
    by auto
  from l have "list_all2
                (\<lambda>d s.
                   description s \<in> set (map s_description (samples_of_day d ss))
                   \<and> list_all
                       (\<lambda>y. py_count (map s_description (samples_of_day d ss)) y
                            \<le> py_count (map s_description (samples_of_day d ss)) (description s))
                       (map s_description (samples_of_day d ss))
                   \<and> set_order_mode e (map s_description (samples_of_day d ss)) =
                       Some (description s))
                (take 7 (first_seen (map s_date ss))) fl"
    by (rule list_all2_mono) (rule step)
  with r show ?thesis by blast
qed

theorem description_is_most_frequent_first_in_set_order_witness:
  "(\<exists>fl ss. aggregate (demo_env rain_first_slot []) tie_items = Inr fl
         \<and> read_samples (demo_env rain_first_slot []) tie_items = Inr ss
         \<and> list_all2
                (\<lambda>d s.
                   description s \<in> set (map s_description (samples_of_day d ss))
                   \<and> list_all
                       (\<lambda>y. py_count (map s_description (samples_of_day d ss)) y
                            \<le> py_count (map s_description (samples_of_day d ss)) (description s))
                       (map s_description (samples_of_day d ss))
                   \<and> set_order_mode (demo_env rain_first_slot [])
                         (map s_description (samples_of_day d ss)) = Some (description s))
                (take 7 (first_seen (map s_date ss))) fl
         \<and> map s_description ss = [PStr ''cloudy'', PStr ''cloudy'', PStr ''rain'', PStr ''rain'']
         \<and> map description fl = [PStr ''rain''])
   \<and> set_order_mode (demo_env rain_first_slot [])
        [PStr ''cloudy'', PStr ''cloudy'', PStr ''rain'', PStr ''rain''] = Some (PStr ''rain'')
   \<and> set_order_mode (demo_env insertion_slot [])
        [PStr ''cloudy'', PStr ''cloudy'', PStr ''rain'', PStr ''rain''] = Some (PStr ''cloudy'')"
proof -
  let ?e = "demo_env rain_first_slot []"
  define fl where "fl = [\<lparr>date = ''Monday, January 01'', temp_max = 15, temp_min = 10,
         description = PStr ''rain'', humidity = 82, wind_speed = Finite 3,
         icon = PStr ''04d''\<rparr>]"
  have a: "aggregate ?e tie_items = Inr fl"
    unfolding fl_def by (rule tie_aggregate_rain_first)
  have v: "map description fl = [PStr ''rain'']"
    unfolding fl_def by simp
  from description_is_most_frequent_first_in_set_order [OF a] obtain ss
    where r: "read_samples ?e tie_items = Inr ss"
      and m: "list_all2
                (\<lambda>d s.
                   description s \<in> set (map s_description (samples_of_day d ss))
                   \<and> list_all
                       (\<lambda>y. py_count (map s_description (samples_of_day d ss)) y
                            \<le> py_count (map s_description (samples_of_day d ss)) (description s))
                       (map s_description (samples_of_day d ss))
                   \<and> set_order_mode ?e (map s_description (samples_of_day d ss)) =
                       Some (description s))
                (take 7 (first_seen (map s_date ss))) fl"
    by (elim exE conjE) (rule that, assumption+)
  from tie_samples_value [of rain_first_slot "[]"] r
  have d: "map s_description ss = [PStr ''cloudy'', PStr ''cloudy'', PStr ''rain'', PStr ''rain'']"
    by auto
  have s1: "set_order_mode ?e [PStr ''cloudy'', PStr ''cloudy'', PStr ''rain'', PStr ''rain''] =
      Some (PStr ''rain'')"
    by (simp add: set_order_mode_def py_count_def demo_defs)
  have s2: "set_order_mode (demo_env insertion_slot [])
      [PStr ''cloudy'', PStr ''cloudy'', PStr ''rain'', PStr ''rain''] = Some (PStr ''cloudy'')"
    by (simp add: set_order_mode_def py_count_def demo_defs)
  show ?thesis
    apply (rule conjI)
     apply (rule exI [of _ fl], rule exI [of _ ss])
     apply (intro conjI a r m d v)
    apply (intro conjI s1 s2)
    done
qed

end
